theory Spec2Isabelle
  imports Complex_Main "HOL-Library.Sublist" "HOL-Library.Finite_Map" "HOL-Library.FSet"
begin

section \<open>Values of the source language\<close>

text \<open>
  A JavaScript string is a sequence of code units. The model keeps the code units
  0..255 as \<^typ>\<open>char\<close>, which covers every character class the source tests:
  \<^verbatim>\<open>\w\<close> is \<^verbatim>\<open>[A-Za-z0-9_]\<close> and, among these code units, \<^verbatim>\<open>\s\<close> and
  \<^verbatim>\<open>trim()\<close> recognise TAB, LF, VT, FF, CR, SPACE and NBSP.
\<close>

definition isWordChar :: "char \<Rightarrow> bool" where
  "isWordChar c =
     (let n = (of_char c :: nat)
      in (65 \<le> n \<and> n \<le> 90) \<or> (97 \<le> n \<and> n \<le> 122) \<or> (48 \<le> n \<and> n \<le> 57) \<or> n = 95)"

definition isWhiteSpace :: "char \<Rightarrow> bool" where
  "isWhiteSpace c =
     (let n = (of_char c :: nat)
      in (9 \<le> n \<and> n \<le> 13) \<or> n = 32 \<or> n = 160)"

text \<open>
  A number of the source language: a finite value, or one of the special values of
  IEEE arithmetic. The search core never computes with numbers, it only stores,
  compares with \<^verbatim>\<open>undefined\<close> and passes them on.
\<close>

datatype jsnumber = Num real | NegZero | NaN | PosInfinity | NegInfinity

text \<open>
  Documents, where-clauses and the other structured parameters are plain data:
  an object is its list of own properties (the first binding of a key is the one that
  counts), an array its list of elements.
\<close>

datatype jsvalue =
    Null
  | Boolean bool
  | Number jsnumber
  | String string
  | Array "jsvalue list"
  | Object "(string \<times> jsvalue) list"

text \<open>Truthiness, as used by \<^verbatim>\<open>!doc\<close> and \<^verbatim>\<open>value && ...\<close>.\<close>

fun truthy :: "jsvalue \<Rightarrow> bool" where
  "truthy Null = False"
| "truthy (Boolean b) = b"
| "truthy (Number (Num x)) = (x \<noteq> 0)"
| "truthy (Number NegZero) = False"
| "truthy (Number NaN) = False"
| "truthy (Number PosInfinity) = True"
| "truthy (Number NegInfinity) = True"
| "truthy (String s) = (s \<noteq> [])"
| "truthy (Array xs) = True"
| "truthy (Object kvs) = True"

section \<open>String operations used by the exact-match filter\<close>

definition trim :: "string \<Rightarrow> string" where
  "trim s = rev (dropWhile isWhiteSpace (rev (dropWhile isWhiteSpace s)))"

definition startsWith :: "string \<Rightarrow> string \<Rightarrow> bool" where
  "startsWith s t = prefix t s"

definition endsWith :: "string \<Rightarrow> string \<Rightarrow> bool" where
  "endsWith s t = suffix t s"

text \<open>\<^verbatim>\<open>s.includes(t)\<close>: \<open>t\<close> occurs in \<open>s\<close> as a contiguous run.\<close>

definition includesStr :: "string \<Rightarrow> string \<Rightarrow> bool" where
  "includesStr s t = sublist t s"

text \<open>
  \<^verbatim>\<open>s.split(/\s+/)\<close>: the pieces between maximal runs of white space; a run at
  either end leaves an empty piece there, and the empty string splits into one empty piece.
  The first argument collects the current piece, reversed.
\<close>

function splitWhiteSpaceFrom :: "string \<Rightarrow> string \<Rightarrow> string list" where
  "splitWhiteSpaceFrom cur [] = [rev cur]"
| "splitWhiteSpaceFrom cur (c # cs) =
     (if isWhiteSpace c then rev cur # splitWhiteSpaceFrom [] (dropWhile isWhiteSpace cs)
      else splitWhiteSpaceFrom (c # cur) cs)"
  by pat_completeness auto
termination
  by (relation "measure (\<lambda>(cur, s). length s)")
     (auto simp: length_dropWhile_le le_imp_less_Suc)

definition splitWhiteSpace :: "string \<Rightarrow> string list" where
  "splitWhiteSpace s = splitWhiteSpaceFrom [] s"

text \<open>\<^verbatim>\<open>path.split('.')\<close>: the pieces between the occurrences of one character.\<close>

fun splitOnFrom :: "char \<Rightarrow> string \<Rightarrow> string \<Rightarrow> string list" where
  "splitOnFrom sep cur [] = [rev cur]"
| "splitOnFrom sep cur (c # cs) =
     (if c = sep then rev cur # splitOnFrom sep [] cs else splitOnFrom sep (c # cur) cs)"

definition splitOn :: "char \<Rightarrow> string \<Rightarrow> string list" where
  "splitOn sep s = splitOnFrom sep [] s"

text \<open>\<^verbatim>\<open>xs.join(', ')\<close>.\<close>

fun join :: "string \<Rightarrow> string list \<Rightarrow> string" where
  "join sep [] = []"
| "join sep [x] = x"
| "join sep (x # y # ys) = x @ sep @ join sep (y # ys)"

section \<open>Regular expressions built by the filter\<close>

definition backslash :: char where
  "backslash = CHR 0x5C"

text \<open>The characters of \<^verbatim>\<open>/[.*+?^${}()|[\]\\]/\<close>, which are the syntax characters of a pattern.\<close>

definition isSyntaxChar :: "char \<Rightarrow> bool" where
  "isSyntaxChar c = (c \<in> set ''.*+?^${}()|[]'' \<or> c = backslash)"

text \<open>\<^verbatim>\<open>str.replace(/[.*+?^${}()|[\]\\]/g, '\\$&')\<close>: a backslash before every syntax character.\<close>

fun escapeRegex :: "string \<Rightarrow> string" where
  "escapeRegex [] = []"
| "escapeRegex (c # cs) =
     (if isSyntaxChar c then backslash # c # escapeRegex cs else c # escapeRegex cs)"

text \<open>
  \<^verbatim>\<open>new RegExp(pattern)\<close>, without flags, on the fragment of the pattern language
  that the filter builds: \<^verbatim>\<open>\b\<close> is the word-boundary assertion, a backslash before a
  syntax character is that character, and any other character that is not a syntax
  character is itself. Every other pattern is outside the fragment (\<open>None\<close>).
\<close>

datatype atom = WordBoundary | Lit char

fun RegExp :: "string \<Rightarrow> atom list option" where
  "RegExp [] = Some []"
| "RegExp [c] = (if isSyntaxChar c then None else Some [Lit c])"
| "RegExp (c # d # cs) =
     (if c = backslash then
        (if d = CHR ''b'' then map_option (Cons WordBoundary) (RegExp cs)
         else if isSyntaxChar d then map_option (Cons (Lit d)) (RegExp cs)
         else None)
      else if isSyntaxChar c then None
      else map_option (Cons (Lit c)) (RegExp (d # cs)))"

text \<open>
  Matching a compiled pattern at one position: \<open>prev\<close> is the character before the
  position (\<open>None\<close> at the start of the input), the list is the input from the position on.
  A word boundary holds where exactly one side is a word character.
\<close>

fun isWordSide :: "char option \<Rightarrow> bool" where
  "isWordSide None = False"
| "isWordSide (Some c) = isWordChar c"

fun next_char :: "string \<Rightarrow> char option" where
  "next_char [] = None"
| "next_char (c # cs) = Some c"

definition prev_char :: "string \<Rightarrow> char option" where
  "prev_char pre = (if pre = [] then None else Some (last pre))"

fun matchesAt :: "atom list \<Rightarrow> char option \<Rightarrow> string \<Rightarrow> bool" where
  "matchesAt [] prev rest = True"
| "matchesAt (WordBoundary # as) prev rest =
     (isWordSide prev \<noteq> isWordSide (next_char rest) \<and> matchesAt as prev rest)"
| "matchesAt (Lit c # as) prev [] = False"
| "matchesAt (Lit c # as) prev (x # xs) = (x = c \<and> matchesAt as (Some x) xs)"

text \<open>
  \<^verbatim>\<open>regex.test(s)\<close> without the global or sticky flag: a match at some position.
  The patterns that \<^verbatim>\<open>matchesExactTerm\<close> builds are all in the fragment (lemmas
  \<open>RegExp_word_pattern\<close> and \<open>RegExp_escapeRegex\<close> below), so the first case of
  \<open>test\<close> is never taken for them.
\<close>

fun matchesFrom :: "atom list \<Rightarrow> char option \<Rightarrow> string \<Rightarrow> bool" where
  "matchesFrom as prev [] = matchesAt as prev []"
| "matchesFrom as prev (x # xs) = (matchesAt as prev (x # xs) \<or> matchesFrom as (Some x) xs)"

definition test :: "string \<Rightarrow> string \<Rightarrow> bool" where
  "test pattern s = (case RegExp pattern of None \<Rightarrow> False | Some as \<Rightarrow> matchesFrom as None s)"

text \<open>\<^verbatim>\<open>/^\w+$/.test(s)\<close>: \<open>s\<close> is a non-empty run of word characters.\<close>

definition isWordOnly :: "string \<Rightarrow> bool" where
  "isWordOnly s = (s \<noteq> [] \<and> list_all isWordChar s)"

section \<open>Property lookup\<close>

text \<open>
  The index named by a property key of an array: a decimal numeral without a sign,
  and without a leading zero unless it is \<^verbatim>\<open>0\<close> itself.
\<close>

definition isDigit :: "char \<Rightarrow> bool" where
  "isDigit c = (let n = (of_char c :: nat) in 48 \<le> n \<and> n \<le> 57)"

fun digitsValue :: "nat \<Rightarrow> string \<Rightarrow> nat" where
  "digitsValue acc [] = acc"
| "digitsValue acc (c # cs) = digitsValue (10 * acc + (of_char c - 48)) cs"

definition arrayIndex :: "string \<Rightarrow> nat option" where
  "arrayIndex key =
     (if key = [] then None
      else if list_all isDigit key
      then (if length key > 1 \<and> hd key = CHR ''0'' then None else Some (digitsValue 0 key))
      else None)"

text \<open>
  One step of the loop of \<^verbatim>\<open>getPropValue\<close>: \<open>None\<close> is \<^verbatim>\<open>undefined\<close>.
  The guard \<^verbatim>\<open>value && typeof value === 'object' && value !== null && key in value\<close>
  holds for an object with that own property and for an array with that index or the key
  \<^verbatim>\<open>length\<close>; members inherited from the prototypes are functions, never data,
  and are not part of the model.
\<close>

fun getMember :: "jsvalue \<Rightarrow> string \<Rightarrow> jsvalue option" where
  "getMember (Object kvs) key = map_of kvs key"
| "getMember (Array xs) key =
     (if key = ''length'' then Some (Number (Num (real (length xs))))
      else case arrayIndex key of
             None \<Rightarrow> None
           | Some i \<Rightarrow> (if i < length xs then Some (xs ! i) else None))"
| "getMember v key = None"

fun getPropValueLoop :: "jsvalue \<Rightarrow> string list \<Rightarrow> jsvalue option" where
  "getPropValueLoop v [] = Some v"
| "getPropValueLoop v (key # keys) =
     (case getMember v key of
        None \<Rightarrow> None
      | Some v' \<Rightarrow> getPropValueLoop v' keys)"

definition getPropValue :: "jsvalue \<Rightarrow> string \<Rightarrow> jsvalue option" where
  "getPropValue obj path = getPropValueLoop obj (splitOn CHR ''.'' path)"

section \<open>The exact-match filter\<close>

type_synonym TokenScore = "nat \<times> jsnumber"

text \<open>
  Modelled from the spec: the document store (\<^verbatim>\<open>components/documents-store.js\<close> is
  not part of the sources) keeps the documents under their internal identifiers, and
  \<^verbatim>\<open>get(id) -> document | absent\<close> is the lookup.
\<close>

type_synonym DocumentsStore = "(nat, jsvalue) fmap"

definition store_get :: "DocumentsStore \<Rightarrow> nat \<Rightarrow> jsvalue option" where
  "store_get docs docId = fmlookup docs docId"

text \<open>The callback of \<^verbatim>\<open>searchTerms.every\<close> in \<^verbatim>\<open>matchesExactTerm\<close>.\<close>

definition matchesSearchTerm :: "string \<Rightarrow> string \<Rightarrow> bool" where
  "matchesSearchTerm propValue searchTerm =
     (if isWordOnly searchTerm
      then test (backslash # CHR ''b'' # escapeRegex searchTerm @ [backslash, CHR ''b'']) propValue
      else test (escapeRegex searchTerm) propValue)"

definition matchesExactTerm ::
  "jsvalue \<Rightarrow> string \<Rightarrow> string \<Rightarrow> string list \<Rightarrow> bool \<Rightarrow> bool \<Rightarrow> bool \<Rightarrow> bool" where
  "matchesExactTerm doc prop originalTerm searchTerms preserveSpaces hasLeadingSpace hasTrailingSpace =
     (case getPropValue doc prop of
        Some (String propValue) \<Rightarrow>
          (if preserveSpaces \<and> (hasLeadingSpace \<or> hasTrailingSpace) \<and> \<not> includesStr propValue originalTerm
           then False
           else list_all (matchesSearchTerm propValue) searchTerms)
      | _ \<Rightarrow> False)"

definition spaceMatchKeeps :: "DocumentsStore \<Rightarrow> string \<Rightarrow> string list \<Rightarrow> TokenScore \<Rightarrow> bool" where
  "spaceMatchKeeps docs term propertiesToSearch r =
     (case store_get docs (fst r) of
        None \<Rightarrow> False
      | Some doc \<Rightarrow>
          (if \<not> truthy doc then False
           else list_ex (\<lambda>prop. case getPropValue doc prop of
                                  Some (String propValue) \<Rightarrow> includesStr propValue term
                                | _ \<Rightarrow> False) propertiesToSearch))"

definition filterBySpaceMatch ::
  "TokenScore list \<Rightarrow> DocumentsStore \<Rightarrow> string \<Rightarrow> string list \<Rightarrow> TokenScore list" where
  "filterBySpaceMatch results docs term propertiesToSearch =
     filter (spaceMatchKeeps docs term propertiesToSearch) results"

definition exactMatchKeeps ::
  "DocumentsStore \<Rightarrow> string \<Rightarrow> string list \<Rightarrow> string list \<Rightarrow> bool \<Rightarrow> bool \<Rightarrow> bool \<Rightarrow> TokenScore \<Rightarrow> bool" where
  "exactMatchKeeps docs term searchTerms propertiesToSearch preserveSpaces hasLeadingSpace hasTrailingSpace r =
     (case store_get docs (fst r) of
        None \<Rightarrow> False
      | Some doc \<Rightarrow>
          (if \<not> truthy doc then False
           else list_ex (\<lambda>prop. matchesExactTerm doc prop term searchTerms preserveSpaces
                                  hasLeadingSpace hasTrailingSpace) propertiesToSearch))"

definition filterExactMatches ::
  "DocumentsStore \<Rightarrow> TokenScore list \<Rightarrow> string \<Rightarrow> string list \<Rightarrow> bool \<Rightarrow> TokenScore list" where
  "filterExactMatches docs results term propertiesToSearch preserveSpaces =
     (let trimmedTerm = trim term;
          hasLeadingSpace = startsWith term '' '';
          hasTrailingSpace = endsWith term '' ''
      in if trimmedTerm = [] then
           (if preserveSpaces \<and> (hasLeadingSpace \<or> hasTrailingSpace)
            then filterBySpaceMatch results docs term propertiesToSearch
            else results)
         else
           (let searchTerms = filter (\<lambda>t. t \<noteq> []) (splitWhiteSpace trimmedTerm)
            in if length searchTerms = 0 then results
               else filter (exactMatchKeeps docs term searchTerms propertiesToSearch preserveSpaces
                              hasLeadingSpace hasTrailingSpace) results))"

section \<open>Errors\<close>

datatype error =
    OramaError string "string list"
  | TypeError
  | Thrown jsvalue

text \<open>\<^verbatim>\<open>createError(code, ...args)\<close>: an error that carries its code and its arguments.\<close>

definition createError :: "string \<Rightarrow> string list \<Rightarrow> error" where
  "createError code args = OramaError code args"

section \<open>Relevance defaults\<close>

text \<open>
  A \<^verbatim>\<open>BM25Params\<close> object is a plain object with the own data properties \<^verbatim>\<open>k\<close>,
  \<^verbatim>\<open>b\<close>, \<^verbatim>\<open>d\<close>, each of which may be missing. A property that is there has a
  value, which the type says is a number or \<^verbatim>\<open>undefined\<close> (\<open>None\<close>) and which at run
  time may be any value, and is writable or read-only; the object is extensible or not.
  \<^verbatim>\<open>Object.freeze\<close> leaves every property read-only and the object not extensible;
  \<^verbatim>\<open>Object.seal\<close> and \<^verbatim>\<open>Object.preventExtensions\<close> leave it not extensible.
\<close>

datatype property = Absent | Own "jsvalue option" bool

record BM25Params =
  param_k :: property
  param_b :: property
  param_d :: property
  extensible :: bool

text \<open>Reading \<^verbatim>\<open>r.k\<close>: a missing property reads as \<^verbatim>\<open>undefined\<close>.\<close>

fun readProperty :: "property \<Rightarrow> jsvalue option" where
  "readProperty Absent = None"
| "readProperty (Own v writable) = v"

text \<open>
  The assignment \<^verbatim>\<open>r.k = v\<close>. The file is a module, so its code is strict: the
  assignment throws a \<^verbatim>\<open>TypeError\<close> (\<open>None\<close>) on a read-only property and on a
  missing property of an object that is not extensible. A property that the assignment
  creates is writable.
\<close>

fun assignProperty :: "property \<Rightarrow> bool \<Rightarrow> jsvalue option \<Rightarrow> property option" where
  "assignProperty Absent ext v = (if ext then Some (Own v True) else None)"
| "assignProperty (Own old writable) ext v = (if writable then Some (Own v True) else None)"

definition defaultBM25Params :: BM25Params where
  "defaultBM25Params =
     \<lparr>param_k = Own (Some (Number (Num 1.2))) True,
      param_b = Own (Some (Number (Num 0.75))) True,
      param_d = Own (Some (Number (Num 0.5))) True,
      extensible = True\<rparr>"

text \<open>The object \<^verbatim>\<open>{}\<close>.\<close>

definition emptyObject :: BM25Params where
  "emptyObject = \<lparr>param_k = Absent, param_b = Absent, param_d = Absent, extensible = True\<rparr>"

text \<open>
  What a search can change: the per-instance cache entry \<^verbatim>\<open>caches['propertiesToSearch']\<close>,
  and the relevance objects, which live in a store of objects addressed by references
  (\<open>heap_next\<close> is the first unused reference). \<open>indexCalls\<close> records the calls made
  to the operations of the index, oldest first: the two that read the searchable
  properties, and the three that search it (by where-clause, by scored search, by
  geo where-clause).
\<close>

datatype indexCall =
    GetSearchablePropertiesWithTypes
  | GetSearchableProperties
  | SearchByWhereClause
  | Search
  | SearchByGeoWhereClause

record state =
  caches :: "string list option"
  heap :: "nat \<Rightarrow> BM25Params"
  heap_next :: nat
  indexCalls :: "indexCall list"

definition logCall :: "indexCall \<Rightarrow> state \<Rightarrow> state" where
  "logCall c st = st\<lparr>indexCalls := indexCalls st @ [c]\<rparr>"

text \<open>
  \<^verbatim>\<open>const r = bm25Relevance ?? {}\<close>: \<open>r\<close> is the caller's object when there is one,
  and a new object otherwise.
\<close>

definition relevanceOrNew :: "state \<Rightarrow> nat option \<Rightarrow> state \<times> nat" where
  "relevanceOrNew st bm25Relevance =
     (case bm25Relevance of
        Some a \<Rightarrow> (st, a)
      | None \<Rightarrow> (st\<lparr>heap := (heap st)(heap_next st := emptyObject), heap_next := Suc (heap_next st)\<rparr>,
                 heap_next st))"

text \<open>
  \<^verbatim>\<open>x ?? y\<close>: \<open>y\<close> when \<open>x\<close> is \<^verbatim>\<open>undefined\<close> or \<^verbatim>\<open>null\<close>, and \<open>x\<close>
  otherwise, whatever its value (0, -0 and NaN included).
\<close>

definition isNullish :: "jsvalue option \<Rightarrow> bool" where
  "isNullish x = (case x of None \<Rightarrow> True | Some v \<Rightarrow> v = Null)"

definition nullish :: "jsvalue option \<Rightarrow> jsvalue option \<Rightarrow> jsvalue option" where
  "nullish x y = (if isNullish x then y else x)"

text \<open>
  \<^verbatim>\<open>applyDefault\<close>: three assignments through the reference \<open>r\<close>, in the order
  \<^verbatim>\<open>k\<close>, \<^verbatim>\<open>b\<close>, \<^verbatim>\<open>d\<close>, then \<open>r\<close> is returned. An assignment that throws
  ends the call, with the assignments before it done.
\<close>

definition applyDefault :: "state \<Rightarrow> nat option \<Rightarrow> (error + nat) \<times> state" where
  "applyDefault st bm25Relevance =
     (let (st0, r) = relevanceOrNew st bm25Relevance
      in case assignProperty (param_k (heap st0 r)) (extensible (heap st0 r))
                (nullish (readProperty (param_k (heap st0 r))) (readProperty (param_k defaultBM25Params))) of
           None \<Rightarrow> (Inl TypeError, st0)
         | Some pk \<Rightarrow>
             (let st1 = st0\<lparr>heap := (heap st0)(r := (heap st0 r)\<lparr>param_k := pk\<rparr>)\<rparr>
              in case assignProperty (param_b (heap st1 r)) (extensible (heap st1 r))
                        (nullish (readProperty (param_b (heap st1 r)))
                           (readProperty (param_b defaultBM25Params))) of
                   None \<Rightarrow> (Inl TypeError, st1)
                 | Some pb \<Rightarrow>
                     (let st2 = st1\<lparr>heap := (heap st1)(r := (heap st1 r)\<lparr>param_b := pb\<rparr>)\<rparr>
                      in case assignProperty (param_d (heap st2 r)) (extensible (heap st2 r))
                                (nullish (readProperty (param_d (heap st2 r)))
                                   (readProperty (param_d defaultBM25Params))) of
                           None \<Rightarrow> (Inl TypeError, st2)
                         | Some pd \<Rightarrow>
                             (Inr r, st2\<lparr>heap := (heap st2)(r := (heap st2 r)\<lparr>param_d := pd\<rparr>)\<rparr>))))"

section \<open>The search parameters, the instance and the result\<close>

datatype properties = AllProperties | PropertyList "string list"

text \<open>
  An item handed to a custom sorter is \<^verbatim>\<open>[id, score, document]\<close>. A comparator is
  the caller's code: it returns a number, of which the sort reads the sign, or throws.
\<close>

type_synonym CustomSorterFunctionItem = "nat \<times> jsnumber \<times> jsvalue option"

datatype sortBy =
    CustomSorter "CustomSorterFunctionItem \<Rightarrow> CustomSorterFunctionItem \<Rightarrow> error + int"
  | SorterParams jsvalue

text \<open>
  \<^verbatim>\<open>SearchParamsFullText\<close>: every field is optional, \<open>None\<close> is \<^verbatim>\<open>undefined\<close>.
  The relevance object is held by reference.
\<close>

record SearchParams =
  sp_term :: "string option"
  sp_properties :: "properties option"
  sp_where :: "(string \<times> jsvalue) list option"
  sp_exact :: "bool option"
  sp_preserveSpaces :: "bool option"
  sp_tolerance :: "nat option"
  sp_boost :: "(string \<times> jsnumber) list option"
  sp_relevance :: "nat option"
  sp_threshold :: "jsnumber option"
  sp_limit :: "nat option"
  sp_offset :: "nat option"
  sp_distinctOn :: "string option"
  sp_includeVectors :: "bool option"
  sp_preflight :: "bool option"
  sp_sortBy :: "sortBy option"
  sp_facets :: "(string \<times> jsvalue) list option"
  sp_groupBy :: "jsvalue option"

text \<open>The arguments of \<^verbatim>\<open>orama.index.search\<close>, after the index and the tokenizer.\<close>

record SearchArgs =
  a_term :: string
  a_language :: "string option"
  a_propertiesToSearch :: "string list"
  a_exact :: bool
  a_tolerance :: nat
  a_boost :: "(string \<times> jsnumber) list"
  a_relevance :: BM25Params
  a_docsCount :: nat
  a_whereFiltersIDs :: "nat list option"
  a_threshold :: jsnumber

text \<open>A hit is \<^verbatim>\<open>{id, score, document}\<close>.\<close>

type_synonym Hit = "string \<times> jsnumber \<times> jsvalue"

record Results =
  elapsed :: jsvalue
  hits :: "Hit list"
  count :: nat
  facets :: "jsvalue option"
  groups :: "jsvalue option"

text \<open>
  A hook runs on what it is passed and may change it in place: the instance's
  changeable part and the parameters (and the result, after the search). It may throw.
\<close>

type_synonym beforeHook = "state \<times> SearchParams \<Rightarrow> error option \<times> state \<times> SearchParams"
type_synonym afterHook =
  "state \<times> SearchParams \<times> Results \<Rightarrow> error option \<times> state \<times> SearchParams \<times> Results"

text \<open>
  The instance: its documents, and the operations of the components that
  \<^verbatim>\<open>search-fulltext.ts\<close> imports or reaches through the instance. Each is a
  parameter of the model; a set of identifiers is the list of its elements in iteration
  order.
\<close>

record Orama =
  docs :: DocumentsStore
  getSearchableProperties :: "string list"
  getSearchablePropertiesWithTypes :: "string \<rightharpoonup> string"
  vectorIndexes :: "string list"
  searchByWhereClause :: "(string \<times> jsvalue) list \<Rightarrow> string option \<Rightarrow> nat list"
  index_search :: "SearchArgs \<Rightarrow> TokenScore list"
  searchByGeoWhereClause :: "(string \<times> jsvalue) list \<Rightarrow> TokenScore list option"
  countDocs :: nat
  sorter_sortBy :: "TokenScore list \<Rightarrow> jsvalue \<Rightarrow> (string \<times> jsnumber) list"
  getInternalDocumentId :: "string \<Rightarrow> nat"
  sortTokenScorePredicate :: "TokenScore \<Rightarrow> TokenScore \<Rightarrow> int"
  applyPinningRules :: "TokenScore list \<Rightarrow> string option \<Rightarrow> TokenScore list"
  fetchDocuments :: "TokenScore list \<Rightarrow> nat \<Rightarrow> nat \<Rightarrow> Hit option list"
  fetchDocumentsWithDistinct :: "TokenScore list \<Rightarrow> nat \<Rightarrow> nat \<Rightarrow> string \<Rightarrow> Hit option list"
  removeVectorsFromHits :: "Hit list \<Rightarrow> string list \<Rightarrow> Hit list"
  getFacets :: "TokenScore list \<Rightarrow> (string \<times> jsvalue) list \<Rightarrow> jsvalue"
  getGroups :: "TokenScore list \<Rightarrow> jsvalue \<Rightarrow> jsvalue"
  formatElapsedTime :: "int \<Rightarrow> jsvalue"
  beforeSearch :: "beforeHook list option"
  afterSearch :: "afterHook list option"

text \<open>
  Modelled from the spec: the other two operations of the document store.
  \<^verbatim>\<open>getMultiple(ids) -> sequence<document|absent>\<close> answers position by position;
  \<^verbatim>\<open>getAll() -> map<id, document>\<close> is the store itself, whose keys
  \<^verbatim>\<open>Object.keys\<close> lists in ascending order.
\<close>

definition getMultiple :: "DocumentsStore \<Rightarrow> nat list \<Rightarrow> jsvalue option list" where
  "getMultiple store ids = map (store_get store) ids"

definition getAllKeys :: "DocumentsStore \<Rightarrow> nat list" where
  "getAllKeys store = sorted_list_of_fset (fmdom store)"

text \<open>
  \<^verbatim>\<open>Array.prototype.sort\<close> with a comparator: the sort is stable, and \<open>x\<close> stays
  before \<open>y\<close> unless the comparator answers with a positive number. A comparator that
  throws ends the sort with its error. Which pairs a sort compares is left to the
  implementation; the model compares as an insertion from the right does.
\<close>

fun insertBy :: "('a \<Rightarrow> 'a \<Rightarrow> error + int) \<Rightarrow> 'a \<Rightarrow> 'a list \<Rightarrow> error + 'a list" where
  "insertBy cmp x [] = Inr [x]"
| "insertBy cmp x (y # ys) =
     (case cmp x y of
        Inl e \<Rightarrow> Inl e
      | Inr n \<Rightarrow>
          (if n \<le> 0 then Inr (x # y # ys)
           else (case insertBy cmp x ys of
                   Inl e \<Rightarrow> Inl e
                 | Inr zs \<Rightarrow> Inr (y # zs))))"

fun arraySort :: "('a \<Rightarrow> 'a \<Rightarrow> error + int) \<Rightarrow> 'a list \<Rightarrow> error + 'a list" where
  "arraySort cmp [] = Inr []"
| "arraySort cmp (x # xs) =
     (case arraySort cmp xs of
        Inl e \<Rightarrow> Inl e
      | Inr ys \<Rightarrow> insertBy cmp x ys)"

section \<open>Candidate resolution\<close>

text \<open>
  Lines 196 to 206 of \<^verbatim>\<open>innerFullTextSearch\<close>: the searchable string properties,
  from the cache entry or, when it is empty, from the index, which fills the entry.
  \<^verbatim>\<open>propertiesToSearchWithTypes[prop].startsWith\<close> throws a \<^verbatim>\<open>TypeError\<close> on a
  property without a type.
\<close>

definition cachedPropertiesToSearch :: "Orama \<Rightarrow> state \<Rightarrow> (error + string list) \<times> state" where
  "cachedPropertiesToSearch orama st =
     (case caches st of
        Some propertiesToSearch \<Rightarrow> (Inr propertiesToSearch, st)
      | None \<Rightarrow>
          (let st1 = logCall GetSearchableProperties (logCall GetSearchablePropertiesWithTypes st);
               propertiesToSearchWithTypes = getSearchablePropertiesWithTypes orama;
               propertiesToSearch = getSearchableProperties orama
           in if list_ex (\<lambda>prop. propertiesToSearchWithTypes prop = None) propertiesToSearch
              then (Inl TypeError, st1)
              else (let stringProperties =
                          filter (\<lambda>prop. case propertiesToSearchWithTypes prop of
                                            None \<Rightarrow> False
                                          | Some ty \<Rightarrow> startsWith ty ''string'') propertiesToSearch
                    in (Inr stringProperties, st1\<lparr>caches := Some stringProperties\<rparr>))))"

text \<open>The loop of lines 209 to 213: the error thrown at the first unknown property, if any.\<close>

fun unknownProperty :: "string list \<Rightarrow> string list \<Rightarrow> error option" where
  "unknownProperty propertiesToSearch [] = None"
| "unknownProperty propertiesToSearch (prop # rest) =
     (if prop \<notin> set propertiesToSearch
      then Some (createError ''UNKNOWN_INDEX'' [prop, join '', '' propertiesToSearch])
      else unknownProperty propertiesToSearch rest)"

text \<open>
  Lines 218 to 282 of \<^verbatim>\<open>innerFullTextSearch\<close>: the candidates, once the
  properties to search are known.
\<close>

definition resolveCandidates ::
  "Orama \<Rightarrow> SearchParams \<Rightarrow> string option \<Rightarrow> string list \<Rightarrow> state
     \<Rightarrow> (error + TokenScore list) \<times> state" where
  "resolveCandidates orama params language propertiesToSearch st1 =
     (let termOrEmpty = (case sp_term params of None \<Rightarrow> [] | Some t \<Rightarrow> t);
          properties = sp_properties params;
          exact = (sp_exact params = Some True);
          preserveSpaces = (if exact then (case sp_preserveSpaces params of None \<Rightarrow> False | Some v \<Rightarrow> v)
                            else False);
          whereClause = (case sp_where params of None \<Rightarrow> [] | Some w \<Rightarrow> w);
          hasFilters = (length whereClause > 0);
          whereFiltersIDs =
            (if hasFilters then Some (searchByWhereClause orama whereClause language) else None);
          st2 = (if hasFilters then logCall SearchByWhereClause st1 else st1);
          threshold = (case sp_threshold params of None \<Rightarrow> Num 1 | Some t \<Rightarrow> t)
      in if termOrEmpty \<noteq> [] \<or> properties \<noteq> None then
           (let docsCount = countDocs orama
            in case applyDefault st2 (sp_relevance params) of
                 (Inl e, st3) \<Rightarrow> (Inl e, st3)
               | (Inr r, st3) \<Rightarrow>
                   (let uniqueDocsIDs = index_search orama
                          \<lparr>a_term = termOrEmpty,
                           a_language = language,
                           a_propertiesToSearch = propertiesToSearch,
                           a_exact = exact,
                           a_tolerance = (case sp_tolerance params of None \<Rightarrow> 0 | Some n \<Rightarrow> n),
                           a_boost = (case sp_boost params of None \<Rightarrow> [] | Some bs \<Rightarrow> bs),
                           a_relevance = heap st3 r,
                           a_docsCount = docsCount,
                           a_whereFiltersIDs = whereFiltersIDs,
                           a_threshold = threshold\<rparr>;
                        st4 = logCall Search st3
                    in if exact \<and> termOrEmpty \<noteq> []
                       then (Inr (filterExactMatches (docs orama) uniqueDocsIDs termOrEmpty
                                    propertiesToSearch preserveSpaces), st4)
                       else (Inr uniqueDocsIDs, st4)))
         else if hasFilters then
           (case searchByGeoWhereClause orama whereClause of
              Some geoResults \<Rightarrow> (Inr geoResults, logCall SearchByGeoWhereClause st2)
            | None \<Rightarrow>
                (let docIds = (case whereFiltersIDs of None \<Rightarrow> [] | Some ids \<Rightarrow> ids)
                 in (Inr (map (\<lambda>k. (k, Num 0)) docIds), logCall SearchByGeoWhereClause st2)))
         else
           (let docIds = getAllKeys (docs orama)
            in (Inr (map (\<lambda>k. (k, Num 0)) docIds), st2)))"

text \<open>
  \<^verbatim>\<open>innerFullTextSearch\<close>: the properties to search (lines 196 to 206), the check of
  an explicit property list and its intersection with them (lines 208 to 216), then the
  candidates.
\<close>

definition innerFullTextSearch ::
  "Orama \<Rightarrow> SearchParams \<Rightarrow> string option \<Rightarrow> state \<Rightarrow> (error + TokenScore list) \<times> state" where
  "innerFullTextSearch orama params language st =
     (case cachedPropertiesToSearch orama st of
        (Inl e, st1) \<Rightarrow> (Inl e, st1)
      | (Inr cached, st1) \<Rightarrow>
          (case sp_properties params of
             Some (PropertyList ps) \<Rightarrow>
               (case unknownProperty cached ps of
                  Some e \<Rightarrow> (Inl e, st1)
                | None \<Rightarrow>
                    resolveCandidates orama params language
                      (filter (\<lambda>prop. prop \<in> set ps) cached) st1)
           | _ \<Rightarrow> resolveCandidates orama params language cached st1))"

section \<open>The search\<close>

text \<open>
  Lines 302 to 308 of \<^verbatim>\<open>fullTextSearch\<close>: the items handed to a custom sorter.
  The fetched documents are paired with the candidates position by position.
\<close>

definition docsWithIdAndScore :: "DocumentsStore \<Rightarrow> TokenScore list \<Rightarrow> CustomSorterFunctionItem list" where
  "docsWithIdAndScore store uniqueDocsArray =
     (let ids = map fst uniqueDocsArray;
          fetched = getMultiple store ids
      in map (\<lambda>(d, i). (fst (uniqueDocsArray ! i), snd (uniqueDocsArray ! i), d))
           (zip fetched [0..<length fetched]))"

text \<open>
  Lines 300 to 318: the three ways of sorting the candidates. The caller's comparator
  may throw; \<^verbatim>\<open>sortTokenScorePredicate\<close> returns a number.
\<close>

definition sortCandidates ::
  "Orama \<Rightarrow> SearchParams \<Rightarrow> TokenScore list \<Rightarrow> error + TokenScore list" where
  "sortCandidates orama params uniqueDocsArray =
     (case sp_sortBy params of
        Some (CustomSorter cmp) \<Rightarrow>
          (case arraySort cmp (docsWithIdAndScore (docs orama) uniqueDocsArray) of
             Inl e \<Rightarrow> Inl e
           | Inr sortedItems \<Rightarrow> Inr (map (\<lambda>(docId, score, d). (docId, score)) sortedItems))
      | Some (SorterParams sorterParams) \<Rightarrow>
          Inr (map (\<lambda>(externalId, score). (getInternalDocumentId orama externalId, score))
                 (sorter_sortBy orama uniqueDocsArray sorterParams))
      | None \<Rightarrow>
          arraySort (\<lambda>x y. Inr (sortTokenScorePredicate orama x y)) uniqueDocsArray)"

text \<open>Lines 298 to 321: the candidates, sorted and pinned, as they are before pagination.\<close>

definition pinnedCandidates ::
  "Orama \<Rightarrow> SearchParams \<Rightarrow> string option \<Rightarrow> state \<Rightarrow> (error + TokenScore list) \<times> state" where
  "pinnedCandidates orama params language st =
     (case innerFullTextSearch orama params language st of
        (Inl e, st1) \<Rightarrow> (Inl e, st1)
      | (Inr uniqueDocsArray, st1) \<Rightarrow>
          (case sortCandidates orama params uniqueDocsArray of
             Inl e \<Rightarrow> (Inl e, st1)
           | Inr sortedArray \<Rightarrow> (Inr (applyPinningRules orama sortedArray (sp_term params)), st1)))"

text \<open>\<^verbatim>\<open>results.filter(Boolean)\<close> on fetched hits: the entries that are there.\<close>

fun filterBoolean :: "'a option list \<Rightarrow> 'a list" where
  "filterBoolean [] = []"
| "filterBoolean (None # xs) = filterBoolean xs"
| "filterBoolean (Some x # xs) = x # filterBoolean xs"

text \<open>
  \<^verbatim>\<open>performSearchLogic\<close>. The clock is read once before it (\<open>timeStart\<close>) and once
  at its end (\<open>timeEnd\<close>); the two readings are arguments.
\<close>

definition performSearchLogic ::
  "Orama \<Rightarrow> SearchParams \<Rightarrow> string option \<Rightarrow> int \<Rightarrow> int \<Rightarrow> state \<Rightarrow> (error + Results) \<times> state" where
  "performSearchLogic orama params language timeStart timeEnd st =
     (let vectorProperties = vectorIndexes orama;
          shouldCalculateFacets = (case sp_facets params of None \<Rightarrow> False | Some f \<Rightarrow> length f > 0);
          limit = (case sp_limit params of None \<Rightarrow> 10 | Some n \<Rightarrow> n);
          offset = (case sp_offset params of None \<Rightarrow> 0 | Some n \<Rightarrow> n);
          distinctOn = (case sp_distinctOn params of None \<Rightarrow> [] | Some key \<Rightarrow> key);
          includeVectors = (case sp_includeVectors params of None \<Rightarrow> False | Some v \<Rightarrow> v);
          isPreflight = (sp_preflight params = Some True)
      in case pinnedCandidates orama params language st of
           (Inl e, st1) \<Rightarrow> (Inl e, st1)
         | (Inr uniqueDocsArray, st1) \<Rightarrow>
             (let results =
                    (if \<not> isPreflight
                     then Some (if distinctOn \<noteq> []
                                then fetchDocumentsWithDistinct orama uniqueDocsArray offset limit distinctOn
                                else fetchDocuments orama uniqueDocsArray offset limit)
                     else None);
                  searchResult =
                    \<lparr>elapsed = Object [(''formatted'', String []), (''raw'', Number (Num 0))],
                     hits = [],
                     count = length uniqueDocsArray,
                     facets = None,
                     groups = None\<rparr>;
                  searchResult1 =
                    (case results of
                       None \<Rightarrow> searchResult
                     | Some fetched \<Rightarrow>
                         (if \<not> includeVectors
                          then searchResult\<lparr>hits := removeVectorsFromHits orama (filterBoolean fetched)
                                                      vectorProperties\<rparr>
                          else searchResult\<lparr>hits := filterBoolean fetched\<rparr>));
                  searchResult2 =
                    (case sp_facets params of
                       None \<Rightarrow> searchResult1
                     | Some f \<Rightarrow>
                         (if shouldCalculateFacets
                          then searchResult1\<lparr>facets := Some (getFacets orama uniqueDocsArray f)\<rparr>
                          else searchResult1));
                  searchResult3 =
                    (case sp_groupBy params of
                       None \<Rightarrow> searchResult2
                     | Some g \<Rightarrow>
                         (if truthy g
                          then searchResult2\<lparr>groups := Some (getGroups orama uniqueDocsArray g)\<rparr>
                          else searchResult2));
                  searchResult4 = searchResult3\<lparr>elapsed := formatElapsedTime orama (timeEnd - timeStart)\<rparr>
              in (Inr searchResult4, st1)))"

text \<open>
  Modelled from the spec: \<^verbatim>\<open>runBeforeSearch\<close> and \<^verbatim>\<open>runAfterSearch\<close>
  (\<^verbatim>\<open>components/hooks.js\<close> is not part of the sources) await the hooks one after
  the other, each on what the one before it left; a hook that throws ends the run.
\<close>

fun runHooks :: "('w \<Rightarrow> error option \<times> 'w) list \<Rightarrow> 'w \<Rightarrow> error option \<times> 'w" where
  "runHooks [] w = (None, w)"
| "runHooks (h # hs) w =
     (case h w of
        (Some e, w') \<Rightarrow> (Some e, w')
      | (None, w') \<Rightarrow> runHooks hs w')"

definition runBeforeSearch ::
  "beforeHook list \<Rightarrow> state \<times> SearchParams \<Rightarrow> error option \<times> state \<times> SearchParams" where
  "runBeforeSearch hooks w = runHooks hooks w"

definition runAfterSearch ::
  "afterHook list \<Rightarrow> state \<times> SearchParams \<times> Results
     \<Rightarrow> error option \<times> state \<times> SearchParams \<times> Results" where
  "runAfterSearch hooks w = runHooks hooks w"

text \<open>
  \<^verbatim>\<open>executeSearchAsync\<close>: what the promise settles to (\<open>Inl\<close> is a rejection), with
  the state and the parameters as the hooks and the search leave them.
\<close>

definition executeSearchAsync ::
  "Orama \<Rightarrow> SearchParams \<Rightarrow> string option \<Rightarrow> int \<Rightarrow> int \<Rightarrow> state
     \<Rightarrow> (error + Results) \<times> state \<times> SearchParams" where
  "executeSearchAsync orama params language timeStart timeEnd st =
     (case (case beforeSearch orama of
              None \<Rightarrow> (None, st, params)
            | Some hooks \<Rightarrow> runBeforeSearch hooks (st, params)) of
        (Some e, st1, params1) \<Rightarrow> (Inl e, st1, params1)
      | (None, st1, params1) \<Rightarrow>
          (case performSearchLogic orama params1 language timeStart timeEnd st1 of
             (Inl e, st2) \<Rightarrow> (Inl e, st2, params1)
           | (Inr searchResult, st2) \<Rightarrow>
               (case (case afterSearch orama of
                        None \<Rightarrow> (None, st2, params1, searchResult)
                      | Some hooks \<Rightarrow> runAfterSearch hooks (st2, params1, searchResult)) of
                  (Some e, st3, params3, searchResult3) \<Rightarrow> (Inl e, st3, params3)
                | (None, st3, params3, searchResult3) \<Rightarrow> (Inr searchResult3, st3, params3))))"

text \<open>
  What \<^verbatim>\<open>fullTextSearch\<close> hands back: the outcome of the search itself (a thrown
  error is \<open>Inl\<close>), or a promise of it.
\<close>

datatype SearchOutcome = Direct "error + Results" | Promise "error + Results"

definition fullTextSearch ::
  "Orama \<Rightarrow> SearchParams \<Rightarrow> string option \<Rightarrow> int \<Rightarrow> int \<Rightarrow> state
     \<Rightarrow> SearchOutcome \<times> state \<times> SearchParams" where
  "fullTextSearch orama params language timeStart timeEnd st =
     (let asyncNeeded =
            ((case beforeSearch orama of None \<Rightarrow> False | Some hooks \<Rightarrow> length hooks > 0)
             \<or> (case afterSearch orama of None \<Rightarrow> False | Some hooks \<Rightarrow> length hooks > 0))
      in if asyncNeeded
         then (case executeSearchAsync orama params language timeStart timeEnd st of
                 (r, st', params') \<Rightarrow> (Promise r, st', params'))
         else (case performSearchLogic orama params language timeStart timeEnd st of
                 (r, st') \<Rightarrow> (Direct r, st', params)))"


section \<open>Notions used in the statements\<close>

text \<open>
  The value of a field once the default is filled in, and an object with the defaults
  filled in: a field that is neither \<^verbatim>\<open>undefined\<close> nor \<^verbatim>\<open>null\<close> keeps its value.
\<close>

definition orDefault :: "jsvalue option \<Rightarrow> jsnumber \<Rightarrow> jsvalue" where
  "orDefault x dflt = (case x of None \<Rightarrow> Number dflt | Some v \<Rightarrow> (if v = Null then Number dflt else v))"

definition withDefaults :: "BM25Params \<Rightarrow> BM25Params" where
  "withDefaults obj =
     obj\<lparr>param_k := Own (Some (orDefault (readProperty (param_k obj)) (Num 1.2))) True,
         param_b := Own (Some (orDefault (readProperty (param_b obj)) (Num 0.75))) True,
         param_d := Own (Some (orDefault (readProperty (param_d obj)) (Num 0.5))) True\<rparr>"

text \<open>
  An object all of whose fields can be assigned: each of \<^verbatim>\<open>k\<close>, \<^verbatim>\<open>b\<close>, \<^verbatim>\<open>d\<close>
  is writable if it is there, and the object is extensible if one of them is missing.
\<close>

fun canAssign :: "property \<Rightarrow> bool \<Rightarrow> bool" where
  "canAssign Absent ext = ext"
| "canAssign (Own v writable) ext = writable"

definition assignable :: "BM25Params \<Rightarrow> bool" where
  "assignable obj =
     (canAssign (param_k obj) (extensible obj)
      \<and> canAssign (param_b obj) (extensible obj)
      \<and> canAssign (param_d obj) (extensible obj))"

text \<open>
  A field after a call, against the field before it: it is as it was, or it was missing,
  \<^verbatim>\<open>undefined\<close> or \<^verbatim>\<open>null\<close> and now holds the default.
\<close>

definition keptOrDefaulted :: "property \<Rightarrow> property \<Rightarrow> jsnumber \<Rightarrow> bool" where
  "keptOrDefaulted before after dflt =
     (after = before \<or> (isNullish (readProperty before) \<and> after = Own (Some (Number dflt)) True))"

text \<open>
  What a call may do to the relevance objects that were there before it, when \<open>rel\<close>
  is the object it was given: it leaves the others as they were, and of the given one it
  leaves the extensibility and the defined fields as they were.
\<close>

definition relevanceEffect :: "nat option \<Rightarrow> state \<Rightarrow> state \<Rightarrow> bool" where
  "relevanceEffect rel st st' =
     ((\<forall>a. a < heap_next st \<and> rel \<noteq> Some a \<longrightarrow> heap st' a = heap st a)
      \<and> (\<forall>a. rel = Some a \<longrightarrow>
            extensible (heap st' a) = extensible (heap st a)
            \<and> keptOrDefaulted (param_k (heap st a)) (param_k (heap st' a)) (Num 1.2)
            \<and> keptOrDefaulted (param_b (heap st a)) (param_b (heap st' a)) (Num 0.75)
            \<and> keptOrDefaulted (param_d (heap st a)) (param_d (heap st' a)) (Num 0.5)))"

text \<open>The calls that search the index, among the calls recorded.\<close>

fun isQueryCall :: "indexCall \<Rightarrow> bool" where
  "isQueryCall SearchByWhereClause = True"
| "isQueryCall Search = True"
| "isQueryCall SearchByGeoWhereClause = True"
| "isQueryCall GetSearchablePropertiesWithTypes = False"
| "isQueryCall GetSearchableProperties = False"

definition queryCalls :: "indexCall list \<Rightarrow> indexCall list" where
  "queryCalls calls = filter isQueryCall calls"

text \<open>A hook that does nothing, an instance whose hooks all do nothing, and one without hooks.\<close>

definition noopHook :: "'w \<Rightarrow> error option \<times> 'w" where
  "noopHook w = (None, w)"

definition onlyNoopHooks :: "Orama \<Rightarrow> bool" where
  "onlyNoopHooks orama =
     ((case beforeSearch orama of None \<Rightarrow> True | Some hooks \<Rightarrow> list_all (\<lambda>h. h = noopHook) hooks)
      \<and> (case afterSearch orama of None \<Rightarrow> True | Some hooks \<Rightarrow> list_all (\<lambda>h. h = noopHook) hooks))"

definition noHooks :: "Orama \<Rightarrow> bool" where
  "noHooks orama =
     ((case beforeSearch orama of None \<Rightarrow> True | Some hooks \<Rightarrow> hooks = [])
      \<and> (case afterSearch orama of None \<Rightarrow> True | Some hooks \<Rightarrow> hooks = []))"

text \<open>What a search settles to, whether it was handed back directly or as a promise.\<close>

definition settled :: "SearchOutcome \<Rightarrow> error + Results" where
  "settled out = (case out of Direct r \<Rightarrow> r | Promise r \<Rightarrow> r)"

definition succeeded :: "error + 'a \<Rightarrow> bool" where
  "succeeded r = (case r of Inl e \<Rightarrow> False | Inr v \<Rightarrow> True)"

text \<open>A result with its \<^verbatim>\<open>elapsed\<close> field blanked, to compare the other fields.\<close>

definition exceptElapsed :: "error + Results \<Rightarrow> error + Results" where
  "exceptElapsed r = map_sum id (\<lambda>res. res\<lparr>elapsed := Null\<rparr>) r"

text \<open>A term is given when it is a non-empty string; a where-clause when it has a key.\<close>

definition termGiven :: "SearchParams \<Rightarrow> bool" where
  "termGiven params = (case sp_term params of None \<Rightarrow> False | Some t \<Rightarrow> t \<noteq> [])"

definition noWhereClause :: "SearchParams \<Rightarrow> bool" where
  "noWhereClause params = (case sp_where params of None \<Rightarrow> True | Some w \<Rightarrow> w = [])"

text \<open>
  The searchable string properties as the index has them, the condition under which
  reading them cannot fail, and what a search finds: the cache entry when it is there.
\<close>

definition searchableStringProperties :: "Orama \<Rightarrow> string list" where
  "searchableStringProperties orama =
     filter (\<lambda>prop. case getSearchablePropertiesWithTypes orama prop of
                       None \<Rightarrow> False
                     | Some ty \<Rightarrow> startsWith ty ''string'') (getSearchableProperties orama)"

definition schemaTyped :: "Orama \<Rightarrow> bool" where
  "schemaTyped orama =
     list_all (\<lambda>prop. getSearchablePropertiesWithTypes orama prop \<noteq> None) (getSearchableProperties orama)"

definition validProperties :: "Orama \<Rightarrow> state \<Rightarrow> string list" where
  "validProperties orama st =
     (case caches st of None \<Rightarrow> searchableStringProperties orama | Some cached \<Rightarrow> cached)"

definition cacheReady :: "Orama \<Rightarrow> state \<Rightarrow> bool" where
  "cacheReady orama st = (case caches st of None \<Rightarrow> schemaTyped orama | Some cached \<Rightarrow> True)"

text \<open>The calls to the index that fill an empty cache entry.\<close>

definition schemaReads :: "state \<Rightarrow> indexCall list" where
  "schemaReads st =
     (case caches st of
        None \<Rightarrow> [GetSearchablePropertiesWithTypes, GetSearchableProperties]
      | Some cached \<Rightarrow> [])"

text \<open>
  The sort engine and the pinning engine hand back as many candidates as they are given,
  and a comparator of the caller's, when there is one, returns.
\<close>

definition enginesKeepCount :: "Orama \<Rightarrow> SearchParams \<Rightarrow> bool" where
  "enginesKeepCount orama params =
     ((\<forall>xs. length (applyPinningRules orama xs (sp_term params)) = length xs)
      \<and> (\<forall>xs sorterParams. length (sorter_sortBy orama xs sorterParams) = length xs)
      \<and> (\<forall>cmp x y. sp_sortBy params = Some (CustomSorter cmp) \<longrightarrow> succeeded (cmp x y)))"

section \<open>Instances for the examples\<close>

text \<open>
  Three documents with two searchable string properties and one numeric property. The
  index answers every scored search with the first two documents; the external
  identifier of document \<open>n\<close> is \<open>n\<close> strokes; candidates are ordered by descending
  score, then ascending identifier; nothing is pinned; a page is fetched from the store
  by position.
\<close>

definition exampleDocs :: DocumentsStore where
  "exampleDocs = fmap_of_list
     [(1, Object [(''title'', String ''the cat sat''), (''body'', String ''on the mat'')]),
      (2, Object [(''title'', String ''category''), (''body'', String ''theory'')]),
      (3, Object [(''title'', String ''dog''), (''price'', Number (Num 5))])]"

definition exampleExternalId :: "nat \<Rightarrow> string" where
  "exampleExternalId n = replicate n CHR ''i''"

definition exampleFetch :: "DocumentsStore \<Rightarrow> TokenScore list \<Rightarrow> nat \<Rightarrow> nat \<Rightarrow> Hit option list" where
  "exampleFetch store xs offset limit =
     map (\<lambda>(docId, score). map_option (\<lambda>doc. (exampleExternalId docId, score, doc)) (store_get store docId))
       (take limit (drop offset xs))"

definition examplePredicate :: "TokenScore \<Rightarrow> TokenScore \<Rightarrow> int" where
  "examplePredicate x y =
     (case (snd x, snd y) of
        (Num sx, Num sy) \<Rightarrow> (if sy = sx then int (fst x) - int (fst y) else if sx < sy then 1 else - 1)
      | _ \<Rightarrow> 0)"

definition exampleOrama :: Orama where
  "exampleOrama =
     \<lparr>docs = exampleDocs,
      getSearchableProperties = [''title'', ''price'', ''body''],
      getSearchablePropertiesWithTypes =
        [''title'' \<mapsto> ''string'', ''price'' \<mapsto> ''number'', ''body'' \<mapsto> ''string''],
      vectorIndexes = [],
      searchByWhereClause = (\<lambda>w l. []),
      index_search = (\<lambda>args. [(1, Num 0.5), (2, Num 0.25)]),
      searchByGeoWhereClause = (\<lambda>w. None),
      countDocs = 3,
      sorter_sortBy = (\<lambda>xs sorterParams. map (\<lambda>(docId, score). (exampleExternalId docId, score)) xs),
      getInternalDocumentId = length,
      sortTokenScorePredicate = examplePredicate,
      applyPinningRules = (\<lambda>xs t. xs),
      fetchDocuments = exampleFetch exampleDocs,
      fetchDocumentsWithDistinct = (\<lambda>xs offset limit key. []),
      removeVectorsFromHits = (\<lambda>hs vectorProperties. hs),
      getFacets = (\<lambda>xs f. Null),
      getGroups = (\<lambda>xs g. Null),
      formatElapsedTime = (\<lambda>t. Number (Num (real_of_int t))),
      beforeSearch = None,
      afterSearch = None\<rparr>"

text \<open>Twenty-five documents, all of them candidates of every scored search.\<close>

definition pagedDocs :: DocumentsStore where
  "pagedDocs = fmap_of_list (map (\<lambda>i. (i, Object [(''title'', String ''cat'')])) [1..<26])"

definition pagedOrama :: Orama where
  "pagedOrama = exampleOrama
     \<lparr>docs := pagedDocs,
      index_search := (\<lambda>args. map (\<lambda>i. (i, Num 1)) [1..<26]),
      countDocs := 25,
      fetchDocuments := exampleFetch pagedDocs\<rparr>"

definition noParams :: SearchParams where
  "noParams =
     \<lparr>sp_term = None, sp_properties = None, sp_where = None, sp_exact = None,
      sp_preserveSpaces = None, sp_tolerance = None, sp_boost = None, sp_relevance = None,
      sp_threshold = None, sp_limit = None, sp_offset = None, sp_distinctOn = None,
      sp_includeVectors = None, sp_preflight = None, sp_sortBy = None, sp_facets = None,
      sp_groupBy = None\<rparr>"

text \<open>
  A state with an empty cache and three relevance objects: \<^verbatim>\<open>{k: 0}\<close> at reference 0,
  \<^verbatim>\<open>Object.freeze({k: 0})\<close> at reference 1 and
  \<^verbatim>\<open>Object.preventExtensions({k: undefined})\<close> at reference 2.
\<close>

definition exampleState :: state where
  "exampleState =
     \<lparr>caches = None,
      heap = (\<lambda>a. emptyObject)
        (0 := \<lparr>param_k = Own (Some (Number (Num 0))) True, param_b = Absent, param_d = Absent,
               extensible = True\<rparr>,
         1 := \<lparr>param_k = Own (Some (Number (Num 0))) False, param_b = Absent, param_d = Absent,
               extensible = False\<rparr>,
         2 := \<lparr>param_k = Own None True, param_b = Absent, param_d = Absent,
               extensible = False\<rparr>),
      heap_next = 3,
      indexCalls = []\<rparr>"

section \<open>Patterns built from a search term\<close>

lemma backslash_syntax: "isSyntaxChar backslash"
  by (simp add: isSyntaxChar_def)

lemma b_not_syntax: "\<not> isSyntaxChar CHR ''b''"
  by (simp add: isSyntaxChar_def backslash_def)

lemma RegExp_plain:
  "\<not> isSyntaxChar c \<Longrightarrow> RegExp (c # xs) = map_option (Cons (Lit c)) (RegExp xs)"
  using backslash_syntax by (cases xs) auto

lemma RegExp_escaped:
  "isSyntaxChar c \<Longrightarrow> RegExp (backslash # c # xs) = map_option (Cons (Lit c)) (RegExp xs)"
  using b_not_syntax by auto

lemma RegExp_boundary:
  "RegExp (backslash # CHR ''b'' # xs) = map_option (Cons WordBoundary) (RegExp xs)"
  by simp

text \<open>An escaped term compiles to the term itself, character by character.\<close>

lemma RegExp_escapeRegex_append:
  "RegExp (escapeRegex t @ rest) = map_option ((@) (map Lit t)) (RegExp rest)"
proof (induction t)
  case Nil
  show ?case by (simp add: option.map_ident)
next
  case (Cons c cs)
  show ?case
  proof (cases "isSyntaxChar c")
    case True
    then show ?thesis
      using Cons.IH by (simp add: RegExp_escaped option.map_comp comp_def del: RegExp.simps)
  next
    case False
    then show ?thesis
      using Cons.IH by (simp add: RegExp_plain option.map_comp comp_def del: RegExp.simps)
  qed
qed

lemma RegExp_escapeRegex: "RegExp (escapeRegex t) = Some (map Lit t)"
  using RegExp_escapeRegex_append [of t "[]"] by simp

lemma RegExp_word_pattern:
  "RegExp (backslash # CHR ''b'' # escapeRegex t @ [backslash, CHR ''b''])
     = Some (WordBoundary # map Lit t @ [WordBoundary])"
proof -
  have "RegExp [backslash, CHR ''b''] = Some [WordBoundary]" by simp
  then show ?thesis
    by (simp only: RegExp_boundary RegExp_escapeRegex_append option.map append_Nil2)
qed

lemma matchesAt_literal:
  "matchesAt (map Lit t @ as) prev rest \<longleftrightarrow>
     (\<exists>post. rest = t @ post \<and> matchesAt as (if t = [] then prev else Some (last t)) post)"
proof (induction t arbitrary: prev rest)
  case Nil
  show ?case by simp
next
  case (Cons c cs)
  show ?case
  proof (cases rest)
    case Nil
    then show ?thesis by simp
  next
    case (Cons x xs)
    then show ?thesis using Cons.IH [of "Some x" xs] by auto
  qed
qed

lemma matchesFrom_split:
  "matchesFrom as prev s \<longleftrightarrow>
     (\<exists>pre post. s = pre @ post \<and> matchesAt as (if pre = [] then prev else Some (last pre)) post)"
proof (induction s arbitrary: prev)
  case Nil
  show ?case by simp
next
  case (Cons x xs)
  show ?case (is "?L = ?R")
  proof
    assume ?L
    then consider "matchesAt as prev (x # xs)" | "matchesFrom as (Some x) xs" by auto
    then show ?R
    proof cases
      case 1
      then have "x # xs = [] @ (x # xs) \<and>
                 matchesAt as (if ([]::string) = [] then prev else Some (last [])) (x # xs)"
        by simp
      then show ?thesis by blast
    next
      case 2
      then obtain pre post where p: "xs = pre @ post"
        "matchesAt as (if pre = [] then Some x else Some (last pre)) post"
        using Cons.IH [of "Some x"] by blast
      then have "x # xs = (x # pre) @ post \<and>
                 matchesAt as (if x # pre = [] then prev else Some (last (x # pre))) post"
        by auto
      then show ?thesis by blast
    qed
  next
    assume ?R
    then obtain pre post where p: "x # xs = pre @ post"
      "matchesAt as (if pre = [] then prev else Some (last pre)) post" by blast
    show ?L
    proof (cases pre)
      case Nil
      with p have "matchesAt as prev (x # xs)" by (metis append_Nil)
      then show ?thesis by simp
    next
      case (Cons y ys)
      with p have "xs = ys @ post" "y = x" by auto
      moreover from p Cons have "matchesAt as (if ys = [] then Some x else Some (last ys)) post"
        by (auto split: if_splits)
      ultimately have "matchesFrom as (Some x) xs" using Cons.IH [of "Some x"] by blast
      then show ?thesis by simp
    qed
  qed
qed

lemma matchesFrom_start:
  "matchesFrom as None s \<longleftrightarrow> (\<exists>pre post. s = pre @ post \<and> matchesAt as (prev_char pre) post)"
  unfolding matchesFrom_split [of as None s] prev_char_def by (rule refl)

lemma word_pattern_at:
  assumes "isWordOnly t"
  shows "matchesAt (WordBoundary # map Lit t @ [WordBoundary]) prev rest \<longleftrightarrow>
           (\<exists>post. rest = t @ post \<and> \<not> isWordSide prev \<and> \<not> isWordSide (next_char post))"
proof -
  from assms have ne: "t \<noteq> []" and w: "list_all isWordChar t"
    by (simp_all add: isWordOnly_def)
  from ne w have first: "isWordSide (next_char (t @ post))" for post
    by (cases t) simp_all
  from ne w have lastw: "isWordChar (last t)"
    by (simp add: list_all_iff)
  have "matchesAt (WordBoundary # map Lit t @ [WordBoundary]) prev rest \<longleftrightarrow>
          (isWordSide prev \<noteq> isWordSide (next_char rest) \<and>
           (\<exists>post. rest = t @ post \<and> matchesAt [WordBoundary] (Some (last t)) post))"
    using ne by (simp add: matchesAt_literal)
  also have "\<dots> \<longleftrightarrow> (\<exists>post. rest = t @ post \<and> \<not> isWordSide prev \<and> \<not> isWordSide (next_char post))"
    using first lastw by auto
  finally show ?thesis .
qed

lemma literal_pattern_at:
  "matchesAt (map Lit t) prev rest \<longleftrightarrow> prefix t rest"
  using matchesAt_literal [of t "[]" prev rest] by (auto simp: prefix_def)

section \<open>Exact matching of one search term\<close>

text \<open>
  Claim C6. In exact mode the test of one split token against a stored string value
  is this: a token made of ASCII word characters only matches exactly where the stored
  string holds the token with no word character directly before it and none directly
  after it (a word boundary on both sides); any other token matches exactly where the
  stored string holds the token itself, character by character, as a substring. So
  \<^verbatim>\<open>cat\<close> matches \<^verbatim>\<open>the cat sat\<close> and not \<^verbatim>\<open>category\<close>, and \<^verbatim>\<open>c.at\<close>
  matches only text that holds \<^verbatim>\<open>c.at\<close> literally.
\<close>

theorem exact_token_match:
  "(isWordOnly t \<longrightarrow>
      (matchesSearchTerm s t \<longleftrightarrow>
         (\<exists>pre post. s = pre @ t @ post \<and> \<not> isWordSide (prev_char pre)
            \<and> \<not> isWordSide (next_char post))))
   \<and> (\<not> isWordOnly t \<longrightarrow> (matchesSearchTerm s t \<longleftrightarrow> includesStr s t))"
proof (intro conjI impI)
  assume w: "isWordOnly t"
  show "matchesSearchTerm s t \<longleftrightarrow>
         (\<exists>pre post. s = pre @ t @ post \<and> \<not> isWordSide (prev_char pre)
            \<and> \<not> isWordSide (next_char post))"
    using w by (simp add: matchesSearchTerm_def test_def RegExp_word_pattern matchesFrom_start
        word_pattern_at del: matchesAt.simps RegExp.simps) blast
next
  assume "\<not> isWordOnly t"
  then show "matchesSearchTerm s t \<longleftrightarrow> includesStr s t"
    by (auto simp add: matchesSearchTerm_def test_def RegExp_escapeRegex matchesFrom_start
        literal_pattern_at includesStr_def sublist_def prefix_def)
qed

theorem exact_token_match_witness:
  "isWordOnly ''cat'' \<and> matchesSearchTerm ''the cat sat'' ''cat''
   \<and> \<not> matchesSearchTerm ''category'' ''cat''
   \<and> \<not> isWordOnly ''c.at'' \<and> matchesSearchTerm ''c.at'' ''c.at''
   \<and> \<not> matchesSearchTerm ''chat'' ''c.at''"
proof -
  have w: "isWordOnly ''cat''" by (simp add: isWordOnly_def isWordChar_def)
  have "''the cat sat'' = ''the '' @ ''cat'' @ '' sat'' \<and> \<not> isWordSide (prev_char ''the '')
          \<and> \<not> isWordSide (next_char '' sat'')"
    by (simp add: prev_char_def isWordChar_def)
  then have "\<exists>pre post. ''the cat sat'' = pre @ ''cat'' @ post \<and> \<not> isWordSide (prev_char pre)
          \<and> \<not> isWordSide (next_char post)" by blast
  with w have m1: "matchesSearchTerm ''the cat sat'' ''cat''"
    using exact_token_match [of "''cat''" "''the cat sat''"] by blast
  have m2: "\<not> matchesSearchTerm ''category'' ''cat''" by code_simp
  have nw: "\<not> isWordOnly ''c.at''" by (simp add: isWordOnly_def isWordChar_def)
  have "includesStr ''c.at'' ''c.at''" by (simp add: includesStr_def)
  with nw have m3: "matchesSearchTerm ''c.at'' ''c.at''"
    using exact_token_match [of "''c.at''" "''c.at''"] by blast
  have "\<not> includesStr ''chat'' ''c.at''" by code_simp
  with nw have m4: "\<not> matchesSearchTerm ''chat'' ''c.at''"
    using exact_token_match [of "''c.at''" "''chat''"] by blast
  from w m1 m2 nw m3 m4 show ?thesis by blast
qed

section \<open>The exact-match filter on a candidate sequence\<close>

text \<open>
  Both filters keep the candidates that pass a test which reads the candidate and the
  store only.
\<close>

text \<open>
  Claim C9. With the document store unchanged, filtering a candidate sequence for exact
  matches a second time, with the same term, properties and \<^verbatim>\<open>preserveSpaces\<close> flag,
  gives what the first filtering gave.
\<close>

theorem filterExactMatches_idempotent:
  "filterExactMatches store (filterExactMatches store results t ps pr) t ps pr
     = filterExactMatches store results t ps pr"
  by (auto simp: filterExactMatches_def filterBySpaceMatch_def Let_def)

theorem filterExactMatches_idempotent_witness:
  "filterExactMatches exampleDocs [(1, Num 2), (2, Num 1), (4, Num 1)] ''cat'' [''title'', ''body''] False
     = [(1, Num 2)]
   \<and> filterExactMatches exampleDocs [(1, Num 2)] ''cat'' [''title'', ''body''] False = [(1, Num 2)]"
proof -
  have once: "filterExactMatches exampleDocs [(1, Num 2), (2, Num 1), (4, Num 1)] ''cat''
                [''title'', ''body''] False = [(1, Num 2)]"
    by code_simp
  with filterExactMatches_idempotent
         [of exampleDocs "[(1, Num 2), (2, Num 1), (4, Num 1)]" "''cat''" "[''title'', ''body'']" False]
  show ?thesis by simp
qed

text \<open>
  Claim C10. The exact-match filter, and the filter for white-space terms it delegates
  to, return a subsequence of the candidate sequence: the pairs kept are pairs of the
  input, unchanged and in their order; no pair is added and no score is changed.
\<close>

theorem filterExactMatches_subseq:
  "subseq (filterExactMatches store results t ps pr) results
   \<and> subseq (filterBySpaceMatch results store t ps) results"
  by (simp add: filterExactMatches_def filterBySpaceMatch_def Let_def)

theorem filterExactMatches_subseq_witness:
  "filterExactMatches exampleDocs [(3, Num 1), (1, Num 2), (4, Num 3)] '' cat'' [''title''] True
     = [(1, Num 2)]
   \<and> filterBySpaceMatch [(3, Num 1), (1, Num 2), (4, Num 3)] exampleDocs '' cat'' [''title'']
     = [(1, Num 2)]
   \<and> subseq [(1, Num 2)] [(3, Num 1), (1, Num 2), (4, Num 3)]"
proof -
  have a: "filterBySpaceMatch [(3, Num 1), (1, Num 2), (4, Num 3)] exampleDocs '' cat'' [''title'']
             = [(1, Num 2)]"
    by code_simp
  have b: "filterExactMatches exampleDocs [(3, Num 1), (1, Num 2), (4, Num 3)] '' cat'' [''title''] True
             = [(1, Num 2)]"
    by code_simp
  from a b filterExactMatches_subseq
         [of exampleDocs "[(3, Num 1), (1, Num 2), (4, Num 3)]" "'' cat''" "[''title'']" True]
  show ?thesis by simp
qed

section \<open>Relevance defaults\<close>

lemma nullish_default: "nullish x (Some (Number dflt)) = Some (orDefault x dflt)"
  by (auto simp: nullish_def isNullish_def orDefault_def split: option.splits)

lemma default_reads:
  "readProperty (param_k defaultBM25Params) = Some (Number (Num 1.2))"
  "readProperty (param_b defaultBM25Params) = Some (Number (Num 0.75))"
  "readProperty (param_d defaultBM25Params) = Some (Number (Num 0.5))"
  by (simp_all add: defaultBM25Params_def)

lemma assign_default:
  "assignProperty p ext (nullish (readProperty p) (Some (Number dflt))) =
     (if canAssign p ext then Some (Own (Some (orDefault (readProperty p) dflt)) True) else None)"
  by (cases p) (simp_all add: nullish_default)



text \<open>
  \<^verbatim>\<open>applyDefault\<close> writes through the reference it is given: the caller's object is
  the one that is completed, as far as its fields can be assigned. Without an object,
  the completed object is a new one.
\<close>

lemma applyDefault_Some:
  "applyDefault st (Some a) =
     (if assignable (heap st a)
      then (Inr a, st\<lparr>heap := (heap st)(a := withDefaults (heap st a))\<rparr>)
      else if \<not> canAssign (param_k (heap st a)) (extensible (heap st a))
      then (Inl TypeError, st)
      else if \<not> canAssign (param_b (heap st a)) (extensible (heap st a))
      then (Inl TypeError,
            st\<lparr>heap := (heap st)(a := (heap st a)\<lparr>param_k :=
               Own (Some (orDefault (readProperty (param_k (heap st a))) (Num 1.2))) True\<rparr>)\<rparr>)
      else (Inl TypeError,
            st\<lparr>heap := (heap st)(a := (heap st a)\<lparr>param_k :=
               Own (Some (orDefault (readProperty (param_k (heap st a))) (Num 1.2))) True,
               param_b :=
               Own (Some (orDefault (readProperty (param_b (heap st a))) (Num 0.75))) True\<rparr>)\<rparr>))"
  by (simp add: applyDefault_def relevanceOrNew_def default_reads assign_default assignable_def
      withDefaults_def Let_def cong: option.case_cong)

lemma applyDefault_None:
  "applyDefault st None =
     (Inr (heap_next st),
      st\<lparr>heap := (heap st)(heap_next st := withDefaults emptyObject), heap_next := Suc (heap_next st)\<rparr>)"
  by (simp add: applyDefault_def relevanceOrNew_def default_reads assign_default
      withDefaults_def emptyObject_def Let_def cong: option.case_cong)


lemma relevanceEffect_cong:
  "heap st1 = heap st \<Longrightarrow> heap_next st1 = heap_next st \<Longrightarrow> heap st2 = heap st' \<Longrightarrow>
     relevanceEffect rel st1 st2 = relevanceEffect rel st st'"
  by (simp add: relevanceEffect_def)

lemma withDefaults_fields:
  "param_k (withDefaults obj) = Own (Some (orDefault (readProperty (param_k obj)) (Num 1.2))) True"
  "param_b (withDefaults obj) = Own (Some (orDefault (readProperty (param_b obj)) (Num 0.75))) True"
  "param_d (withDefaults obj) = Own (Some (orDefault (readProperty (param_d obj)) (Num 0.5))) True"
  "extensible (withDefaults obj) = extensible obj"
  by (simp_all add: withDefaults_def cong: option.case_cong)


text \<open>
  Claim C4, as stated, fails: on the frozen object \<^verbatim>\<open>Object.freeze({k: 0})\<close> the first
  assignment of \<^verbatim>\<open>applyDefault\<close> throws a \<^verbatim>\<open>TypeError\<close>, and no object is returned.
\<close>

theorem applyDefault_frozen_counterexample:
  "heap exampleState 1
     = \<lparr>param_k = Own (Some (Number (Num 0))) False, param_b = Absent, param_d = Absent, extensible = False\<rparr>
   \<and> fst (applyDefault exampleState (Some 1)) = Inl TypeError"
  by (simp add: applyDefault_Some assignable_def exampleState_def)

text \<open>
  Claim C4, amended. Take the relevance object given to \<^verbatim>\<open>applyDefault\<close>, a plain
  object with own data properties, or the empty object when none is given. If all its
  fields can be assigned (each of \<^verbatim>\<open>k\<close>, \<^verbatim>\<open>b\<close>, \<^verbatim>\<open>d\<close> is writable if it is
  there, and the object is extensible if one is missing), the object returned is
  complete: each field is the caller's value when that is neither \<^verbatim>\<open>undefined\<close> nor
  \<^verbatim>\<open>null\<close> (0, -0, NaN and every other value are kept) and the default 1.2, 0.75, 0.5
  otherwise. Without a relevance object the result is \<^verbatim>\<open>{k: 1.2, b: 0.75, d: 0.5}\<close>;
  from \<^verbatim>\<open>{k: 0}\<close> it is \<^verbatim>\<open>{k: 0, b: 0.75, d: 0.5}\<close>. On every other object (a
  frozen one, or one that is sealed or not extensible and lacks a field) the call throws
  a \<^verbatim>\<open>TypeError\<close>.
\<close>

theorem applyDefault_complete:
  assumes "applyDefault st bm25Relevance = (res, st')"
  shows "let given = (case bm25Relevance of None \<Rightarrow> emptyObject | Some a \<Rightarrow> heap st a)
         in (assignable given \<longrightarrow>
               (\<exists>r. res = Inr r
                  \<and> readProperty (param_k (heap st' r))
                      = Some (orDefault (readProperty (param_k given)) (Num 1.2))
                  \<and> readProperty (param_b (heap st' r))
                      = Some (orDefault (readProperty (param_b given)) (Num 0.75))
                  \<and> readProperty (param_d (heap st' r))
                      = Some (orDefault (readProperty (param_d given)) (Num 0.5))))
            \<and> (\<not> assignable given \<longrightarrow> res = Inl TypeError)"
proof (cases bm25Relevance)
  case None
  have "assignable emptyObject" by (simp add: assignable_def emptyObject_def)
  with assms None show ?thesis
    by (auto simp: applyDefault_None withDefaults_fields Let_def)
next
  case (Some a)
  with assms show ?thesis
    by (auto simp: applyDefault_Some withDefaults_fields Let_def assignable_def split: if_splits)
qed

theorem applyDefault_complete_witness:
  "map_sum id (\<lambda>r. map (\<lambda>p. readProperty (p (heap (snd (applyDefault exampleState None)) r)))
                     [param_k, param_b, param_d])
     (fst (applyDefault exampleState None))
     = Inr [Some (Number (Num 1.2)), Some (Number (Num 0.75)), Some (Number (Num 0.5))]
   \<and> map_sum id (\<lambda>r. map (\<lambda>p. readProperty (p (heap (snd (applyDefault exampleState (Some 0))) r)))
                     [param_k, param_b, param_d])
     (fst (applyDefault exampleState (Some 0)))
     = Inr [Some (Number (Num 0)), Some (Number (Num 0.75)), Some (Number (Num 0.5))]
   \<and> fst (applyDefault exampleState (Some 2)) = Inl TypeError"
proof -
  have e: "applyDefault exampleState rel
             = (fst (applyDefault exampleState rel), snd (applyDefault exampleState rel))" for rel
    by simp
  have a0: "assignable emptyObject" by (simp add: assignable_def emptyObject_def)
  have a1: "assignable (heap exampleState 0)" by (simp add: assignable_def exampleState_def)
  have a2: "\<not> assignable (heap exampleState 2)" by (simp add: assignable_def exampleState_def)
  from applyDefault_complete [OF e [of None]] a0
  have n: "map_sum id (\<lambda>r. map (\<lambda>p. readProperty (p (heap (snd (applyDefault exampleState None)) r)))
                     [param_k, param_b, param_d])
     (fst (applyDefault exampleState None))
     = Inr [Some (Number (Num 1.2)), Some (Number (Num 0.75)), Some (Number (Num 0.5))]"
    by (auto simp: Let_def emptyObject_def orDefault_def)
  from applyDefault_complete [OF e [of "Some 0"]] a1
  have s: "map_sum id (\<lambda>r. map (\<lambda>p. readProperty (p (heap (snd (applyDefault exampleState (Some 0))) r)))
                     [param_k, param_b, param_d])
     (fst (applyDefault exampleState (Some 0)))
     = Inr [Some (Number (Num 0)), Some (Number (Num 0.75)), Some (Number (Num 0.5))]"
    by (auto simp: Let_def exampleState_def orDefault_def)
  from applyDefault_complete [OF e [of "Some 2"]] a2
  have t: "fst (applyDefault exampleState (Some 2)) = Inl TypeError"
    by (simp add: Let_def)
  from n s t show ?thesis by blast
qed

section \<open>What candidate resolution does to the state\<close>





lemma cached_ready:
  assumes "cacheReady orama st"
  shows "cachedPropertiesToSearch orama st =
           (Inr (validProperties orama st),
            st\<lparr>indexCalls := indexCalls st @ schemaReads st,
               caches := Some (validProperties orama st)\<rparr>)"
proof (cases "caches st")
  case None
  with assms have "\<not> list_ex (\<lambda>prop. getSearchablePropertiesWithTypes orama prop = None)
                       (getSearchableProperties orama)"
    by (simp add: cacheReady_def schemaTyped_def list_all_iff list_ex_iff)
  with None show ?thesis
    by (simp add: cachedPropertiesToSearch_def validProperties_def schemaReads_def
        searchableStringProperties_def logCall_def Let_def)
next
  case (Some cached)
  then show ?thesis
    by (simp add: cachedPropertiesToSearch_def validProperties_def schemaReads_def)
qed

lemma unknownProperty_Some:
  "list_ex (\<lambda>prop. prop \<notin> set cached) ps \<Longrightarrow>
     unknownProperty cached ps =
       Some (OramaError ''UNKNOWN_INDEX'' [hd (filter (\<lambda>prop. prop \<notin> set cached) ps), join '', '' cached])"
  by (induction ps) (auto simp: createError_def)

lemma inner_unknown:
  assumes "cacheReady orama st"
    and "sp_properties params = Some (PropertyList ps)"
    and "list_ex (\<lambda>prop. prop \<notin> set (validProperties orama st)) ps"
  shows "innerFullTextSearch orama params language st =
           (Inl (OramaError ''UNKNOWN_INDEX''
                   [hd (filter (\<lambda>prop. prop \<notin> set (validProperties orama st)) ps),
                    join '', '' (validProperties orama st)]),
            st\<lparr>indexCalls := indexCalls st @ schemaReads st,
               caches := Some (validProperties orama st)\<rparr>)"
  unfolding innerFullTextSearch_def cached_ready [OF assms(1)]
  by (simp add: assms(2) unknownProperty_Some [OF assms(3)])

lemma queryCalls_schemaReads: "queryCalls (calls @ schemaReads st) = queryCalls calls"
  by (simp add: queryCalls_def schemaReads_def split: option.splits)

section \<open>The full scan\<close>

lemma distinct_getAllKeys: "distinct (getAllKeys store)"
  unfolding getAllKeys_def by (simp add: sorted_list_of_fset.rep_eq)

lemma set_getAllKeys: "set (getAllKeys store) = fset (fmdom store)"
  unfolding getAllKeys_def by simp

lemma length_getAllKeys: "length (getAllKeys store) = fcard (fmdom store)"
  unfolding getAllKeys_def by (simp add: sorted_list_of_fset.rep_eq fcard.rep_eq)

lemma resolve_fullscan:
  assumes "\<not> termGiven params" "sp_properties params = None" "noWhereClause params"
  shows "resolveCandidates orama params language pts st1 =
           (Inr (map (\<lambda>k. (k, Num 0)) (getAllKeys (docs orama))), st1)"
proof -
  from assms(1) have t: "(case sp_term params of None \<Rightarrow> [] | Some t \<Rightarrow> t) = []"
    by (auto simp: termGiven_def split: option.splits)
  from assms(3) have w: "(case sp_where params of None \<Rightarrow> [] | Some w \<Rightarrow> w) = []"
    by (auto simp: noWhereClause_def split: option.splits)
  show ?thesis
    unfolding resolveCandidates_def Let_def t w by (simp add: assms(2))
qed

lemma inner_fullscan:
  assumes "cacheReady orama st" "\<not> termGiven params" "sp_properties params = None" "noWhereClause params"
  shows "innerFullTextSearch orama params language st =
           (Inr (map (\<lambda>k. (k, Num 0)) (getAllKeys (docs orama))),
            st\<lparr>indexCalls := indexCalls st @ schemaReads st,
               caches := Some (validProperties orama st)\<rparr>)"
  unfolding innerFullTextSearch_def cached_ready [OF assms(1)]
  by (simp add: assms(3) resolve_fullscan [OF assms(2-4)])

section \<open>Sorting keeps every candidate\<close>

text \<open>With a comparator that returns, the sort returns, with as many elements as it was given.\<close>

lemma insertBy_returns:
  assumes "\<forall>x y. succeeded (cmp x y)"
  shows "\<exists>zs. insertBy cmp x ys = Inr zs \<and> length zs = Suc (length ys)"
proof (induction ys)
  case Nil
  show ?case by simp
next
  case (Cons y ys)
  from assms have "succeeded (cmp x y)" by simp
  then obtain n where n: "cmp x y = Inr n"
    by (cases "cmp x y") (simp_all add: succeeded_def)
  from Cons obtain zs where "insertBy cmp x ys = Inr zs" "length zs = Suc (length ys)" by blast
  with n show ?case by simp
qed

lemma arraySort_returns:
  assumes "\<forall>x y. succeeded (cmp x y)"
  shows "\<exists>ys. arraySort cmp xs = Inr ys \<and> length ys = length xs"
proof (induction xs)
  case Nil
  show ?case by simp
next
  case (Cons x xs)
  then obtain ys where ys: "arraySort cmp xs = Inr ys" "length ys = length xs" by blast
  from insertBy_returns [OF assms, of x ys] ys show ?case by auto
qed

text \<open>
  The items for a custom sorter are the candidates, each with what the store has under
  its identifier.
\<close>

lemma docsWithIdAndScore_zip:
  "docsWithIdAndScore store xs = map (\<lambda>(docId, score). (docId, score, store_get store docId)) xs"
proof -
  have "map (\<lambda>(d, i). (fst (xs ! i), snd (xs ! i), d)) (zip (map f (map fst xs)) [0..<length xs])
          = map (\<lambda>(docId, score). (docId, score, f docId)) xs" for f :: "nat \<Rightarrow> jsvalue option"
    by (rule nth_equalityI) (simp_all add: split_def)
  then show ?thesis
    by (simp add: docsWithIdAndScore_def getMultiple_def Let_def)
qed

lemma sortCandidates_returns:
  assumes "enginesKeepCount orama params"
  shows "\<exists>ys. sortCandidates orama params xs = Inr ys \<and> length ys = length xs"
proof (cases "sp_sortBy params")
  case None
  have "\<forall>x y. succeeded (Inr (sortTokenScorePredicate orama x y) :: error + int)"
    by (simp add: succeeded_def)
  from arraySort_returns [OF this, of xs] None show ?thesis
    by (simp add: sortCandidates_def)
next
  case (Some s)
  show ?thesis
  proof (cases s)
    case (CustomSorter cmp)
    with Some assms have "\<forall>x y. succeeded (cmp x y)" by (simp add: enginesKeepCount_def)
    from arraySort_returns [OF this, of "docsWithIdAndScore (docs orama) xs"]
    show ?thesis using Some CustomSorter
      by (auto simp: sortCandidates_def docsWithIdAndScore_zip)
  next
    case (SorterParams sorterParams)
    with Some assms show ?thesis
      by (simp add: sortCandidates_def enginesKeepCount_def)
  qed
qed

section \<open>The search logic and the hooks\<close>


lemma pinned_of_inner:
  "innerFullTextSearch orama params language st = (Inr xs, st') \<Longrightarrow>
   sortCandidates orama params xs = Inr ys \<Longrightarrow>
     pinnedCandidates orama params language st =
       (Inr (applyPinningRules orama ys (sp_term params)), st')"
  by (simp add: pinnedCandidates_def)

lemma perform_pinned:
  assumes "performSearchLogic orama params language t0 t1 st = (r, st')"
  shows "\<exists>r0. pinnedCandidates orama params language st = (r0, st') \<and> succeeded r = succeeded r0"
proof -
  obtain r0 st0 where p: "pinnedCandidates orama params language st = (r0, st0)"
    by (cases "pinnedCandidates orama params language st")
  show ?thesis
  proof (cases r0)
    case (Inl e)
    with assms p show ?thesis by (auto simp: performSearchLogic_def Let_def succeeded_def)
  next
    case (Inr xs)
    with assms p show ?thesis by (auto simp: performSearchLogic_def Let_def succeeded_def)
  qed
qed


lemma perform_error:
  "innerFullTextSearch orama params language st = (Inl e, st1) \<Longrightarrow>
     performSearchLogic orama params language t0 t1 st = (Inl e, st1)"
  by (simp add: performSearchLogic_def pinnedCandidates_def Let_def)

lemma perform_count:
  assumes "pinnedCandidates orama params language st = (Inr cands, st')"
  shows "\<exists>r. performSearchLogic orama params language t0 t1 st = (Inr r, st') \<and> count r = length cands"
  using assms by (simp add: performSearchLogic_def Let_def split: option.splits)

text \<open>Hooks that do nothing leave the search logic as the only thing that runs.\<close>

lemma runHooks_noop: "list_all (\<lambda>h. h = noopHook) hooks \<Longrightarrow> runHooks hooks w = (None, w)"
  by (induction hooks) (simp_all add: noopHook_def)

lemma executeSearchAsync_noop:
  assumes "onlyNoopHooks orama"
  shows "executeSearchAsync orama params language t0 t1 st =
           (case performSearchLogic orama params language t0 t1 st of (r, st') \<Rightarrow> (r, st', params))"
proof -
  have b: "(case beforeSearch orama of None \<Rightarrow> (None, st, params)
            | Some hooks \<Rightarrow> runBeforeSearch hooks (st, params)) = (None, st, params)"
    using assms by (auto simp: onlyNoopHooks_def runBeforeSearch_def runHooks_noop split: option.splits)
  have a: "(case afterSearch orama of None \<Rightarrow> (None, w)
            | Some hooks \<Rightarrow> runAfterSearch hooks w) = (None, w)" for w
    using assms by (auto simp: onlyNoopHooks_def runAfterSearch_def runHooks_noop split: option.splits)
  obtain r st' where p: "performSearchLogic orama params language t0 t1 st = (r, st')"
    by (cases "performSearchLogic orama params language t0 t1 st")
  show ?thesis
    unfolding executeSearchAsync_def b
    by (cases r) (simp_all add: p a)
qed

lemma fullTextSearch_noop:
  assumes "onlyNoopHooks orama"
    and "fullTextSearch orama params language t0 t1 st = (out, st', params')"
  shows "params' = params \<and> performSearchLogic orama params language t0 t1 st = (settled out, st')"
  using assms(2) unfolding fullTextSearch_def Let_def executeSearchAsync_noop [OF assms(1)]
  by (auto simp: settled_def split: if_splits prod.splits)

lemma fullTextSearch_shape:
  assumes "fullTextSearch orama params language t0 t1 st = (out, st', params')"
  shows "out = (if noHooks orama then Direct (settled out) else Promise (settled out))"
proof (cases "noHooks orama")
  case True
  then have "\<not> ((case beforeSearch orama of None \<Rightarrow> False | Some hooks \<Rightarrow> 0 < length hooks)
               \<or> (case afterSearch orama of None \<Rightarrow> False | Some hooks \<Rightarrow> 0 < length hooks))"
    by (auto simp: noHooks_def split: option.splits)
  with assms True show ?thesis
    unfolding fullTextSearch_def Let_def by (auto simp: settled_def split: prod.splits)
next
  case False
  then have "(case beforeSearch orama of None \<Rightarrow> False | Some hooks \<Rightarrow> 0 < length hooks)
               \<or> (case afterSearch orama of None \<Rightarrow> False | Some hooks \<Rightarrow> 0 < length hooks)"
    by (auto simp: noHooks_def split: option.splits)
  with assms False show ?thesis
    unfolding fullTextSearch_def Let_def by (auto simp: settled_def split: prod.splits)
qed

text \<open>The search logic reads neither the hooks nor, up to pagination, the page.\<close>

lemma cached_hooks:
  "cachedPropertiesToSearch (orama\<lparr>beforeSearch := b, afterSearch := a\<rparr>) st = cachedPropertiesToSearch orama st"
  by (simp add: cachedPropertiesToSearch_def Let_def cong: if_cong option.case_cong)

lemma resolve_hooks:
  "resolveCandidates (orama\<lparr>beforeSearch := b, afterSearch := a\<rparr>) params language pts st
     = resolveCandidates orama params language pts st"
  by (simp add: resolveCandidates_def Let_def cong: if_cong option.case_cong prod.case_cong sum.case_cong)

lemma sort_hooks:
  "sortCandidates (orama\<lparr>beforeSearch := b, afterSearch := a\<rparr>) params xs = sortCandidates orama params xs"
  by (simp add: sortCandidates_def cong: option.case_cong sortBy.case_cong)

lemma pinned_hooks:
  "pinnedCandidates (orama\<lparr>beforeSearch := b, afterSearch := a\<rparr>) params language st
     = pinnedCandidates orama params language st"
  by (simp add: pinnedCandidates_def innerFullTextSearch_def cached_hooks resolve_hooks sort_hooks
      cong: prod.case_cong sum.case_cong option.case_cong properties.case_cong)

lemma perform_hooks:
  "performSearchLogic (orama\<lparr>beforeSearch := b, afterSearch := a\<rparr>) params language t0 t1 st
     = performSearchLogic orama params language t0 t1 st"
  by (simp add: performSearchLogic_def pinned_hooks Let_def
      cong: if_cong prod.case_cong sum.case_cong option.case_cong)

lemma perform_time:
  "exceptElapsed (fst (performSearchLogic orama params language t0 t1 st))
     = exceptElapsed (fst (performSearchLogic orama params language t0' t1' st))
   \<and> snd (performSearchLogic orama params language t0 t1 st)
     = snd (performSearchLogic orama params language t0' t1' st)"
proof -
  obtain r0 st0 where p: "pinnedCandidates orama params language st = (r0, st0)"
    by (cases "pinnedCandidates orama params language st")
  show ?thesis
    by (cases r0) (simp_all add: performSearchLogic_def p Let_def exceptElapsed_def)
qed

lemma resolve_limit_offset:
  "resolveCandidates orama (params\<lparr>sp_limit := newLimit, sp_offset := newOffset\<rparr>) language pts st
     = resolveCandidates orama params language pts st"
  by (simp add: resolveCandidates_def Let_def cong: if_cong option.case_cong prod.case_cong sum.case_cong)

lemma pinned_limit_offset:
  "pinnedCandidates orama (params\<lparr>sp_limit := newLimit, sp_offset := newOffset\<rparr>) language st
     = pinnedCandidates orama params language st"
  by (simp add: pinnedCandidates_def innerFullTextSearch_def resolve_limit_offset sortCandidates_def
      cong: prod.case_cong sum.case_cong option.case_cong properties.case_cong)

section \<open>The caller's parameters\<close>




section \<open>An unknown property\<close>

text \<open>
  Claim C3. When the explicit property list has an entry that is not a searchable
  string property, the search fails with the error \<^verbatim>\<open>UNKNOWN_INDEX\<close>, which carries
  the first such entry and the searchable string properties joined by a comma and a
  space (\<^verbatim>\<open>nonexistent\<close> and \<^verbatim>\<open>title, body\<close> in the example). It fails at once: as a
  thrown error when no hook is registered, as a rejected promise otherwise. Nothing of
  the query has run by then: no call has searched the index, by where-clause, by scored
  search or by geo where-clause, and the relevance objects are untouched. All that has
  happened is the resolution of the searchable properties, which on an empty cache entry
  reads them from the index and fills the entry. The statement is for an instance
  without hooks or whose hooks do nothing, and for an index that, where it is read, has a
  type for every searchable property.
\<close>

theorem unknown_property_rejected:
  assumes "onlyNoopHooks orama"
    and "cacheReady orama st"
    and "sp_properties params = Some (PropertyList ps)"
    and "list_ex (\<lambda>prop. prop \<notin> set (validProperties orama st)) ps"
    and "fullTextSearch orama params language t0 t1 st = (out, st', params')"
  shows "settled out =
           Inl (OramaError ''UNKNOWN_INDEX''
                  [hd (filter (\<lambda>prop. prop \<notin> set (validProperties orama st)) ps),
                   join '', '' (validProperties orama st)])
         \<and> out = (if noHooks orama then Direct (settled out) else Promise (settled out))
         \<and> queryCalls (indexCalls st') = queryCalls (indexCalls st)
         \<and> indexCalls st' = indexCalls st @ schemaReads st
         \<and> caches st' = Some (validProperties orama st)
         \<and> heap st' = heap st \<and> heap_next st' = heap_next st"
proof -
  from fullTextSearch_noop [OF assms(1) assms(5)]
  have q: "performSearchLogic orama params language t0 t1 st = (settled out, st')" by simp
  from perform_error [OF inner_unknown [OF assms(2-4)], of language t0 t1] q
  have "settled out =
           Inl (OramaError ''UNKNOWN_INDEX''
                  [hd (filter (\<lambda>prop. prop \<notin> set (validProperties orama st)) ps),
                   join '', '' (validProperties orama st)])"
    and "st' = st\<lparr>indexCalls := indexCalls st @ schemaReads st,
                  caches := Some (validProperties orama st)\<rparr>" by simp_all
  with fullTextSearch_shape [OF assms(5)] show ?thesis
    by (simp add: queryCalls_schemaReads)
qed

theorem unknown_property_rejected_witness:
  "fst (fullTextSearch exampleOrama
       (noParams\<lparr>sp_properties := Some (PropertyList [''title'', ''nonexistent''])\<rparr>) None 0 1 exampleState)
     = Direct (Inl (OramaError ''UNKNOWN_INDEX'' [''nonexistent'', ''title, body'']))
   \<and> indexCalls (fst (snd (fullTextSearch exampleOrama
       (noParams\<lparr>sp_properties := Some (PropertyList [''title'', ''nonexistent''])\<rparr>) None 0 1 exampleState)))
     = [GetSearchablePropertiesWithTypes, GetSearchableProperties]
   \<and> queryCalls (indexCalls (fst (snd (fullTextSearch exampleOrama
       (noParams\<lparr>sp_properties := Some (PropertyList [''title'', ''nonexistent''])\<rparr>) None 0 1 exampleState))))
     = []
   \<and> indexCalls (fst (snd (fullTextSearch exampleOrama
       (noParams\<lparr>sp_properties := Some (PropertyList [''title'', ''nonexistent''])\<rparr>) None 0 1
       (exampleState\<lparr>caches := Some [''title'', ''body'']\<rparr>)))) = []"
proof -
  let ?p = "noParams\<lparr>sp_properties := Some (PropertyList [''title'', ''nonexistent''])\<rparr>"
  let ?warm = "exampleState\<lparr>caches := Some [''title'', ''body'']\<rparr>"
  let ?X = "fullTextSearch exampleOrama ?p None 0 1 exampleState"
  let ?Y = "fullTextSearch exampleOrama ?p None 0 1 ?warm"
  have n: "onlyNoopHooks exampleOrama" by (simp add: onlyNoopHooks_def exampleOrama_def)
  have h: "noHooks exampleOrama" by (simp add: noHooks_def exampleOrama_def)
  have p: "sp_properties ?p = Some (PropertyList [''title'', ''nonexistent''])" by simp
  have c: "cacheReady exampleOrama exampleState"
    by (simp add: cacheReady_def exampleState_def schemaTyped_def exampleOrama_def)
  have v: "validProperties exampleOrama exampleState = [''title'', ''body'']"
    by (simp add: validProperties_def exampleState_def searchableStringProperties_def
        exampleOrama_def startsWith_def)
  have u: "list_ex (\<lambda>prop. prop \<notin> set (validProperties exampleOrama exampleState)) [''title'', ''nonexistent'']"
    unfolding v by simp
  have e: "?X = (fst ?X, fst (snd ?X), snd (snd ?X))" by simp
  have cw: "cacheReady exampleOrama ?warm" by (simp add: cacheReady_def)
  have vw: "validProperties exampleOrama ?warm = [''title'', ''body'']" by (simp add: validProperties_def)
  have uw: "list_ex (\<lambda>prop. prop \<notin> set (validProperties exampleOrama ?warm)) [''title'', ''nonexistent'']"
    unfolding vw by simp
  have ew: "?Y = (fst ?Y, fst (snd ?Y), snd (snd ?Y))" by simp
  have sr: "schemaReads exampleState = [GetSearchablePropertiesWithTypes, GetSearchableProperties]"
    by (simp add: schemaReads_def exampleState_def)
  have ic: "indexCalls exampleState = []" by (simp add: exampleState_def)
  have hd: "hd (filter (\<lambda>prop. prop \<notin> set [''title'', ''body'']) [''title'', ''nonexistent''])
              = ''nonexistent''" by simp
  have jn: "join '', '' [''title'', ''body''] = ''title, body''" by simp
  note r = unknown_property_rejected [OF n c p u e, unfolded v hd jn sr ic]
  from r have s: "settled (fst ?X) = Inl (OramaError ''UNKNOWN_INDEX'' [''nonexistent'', ''title, body''])"
    by (rule conjunct1)
  from r have o: "fst ?X = (if noHooks exampleOrama then Direct (settled (fst ?X))
                            else Promise (settled (fst ?X)))" by blast
  from o h s have c1: "fst ?X = Direct (Inl (OramaError ''UNKNOWN_INDEX'' [''nonexistent'', ''title, body'']))"
    by metis
  from r [THEN conjunct2, THEN conjunct2, THEN conjunct2, THEN conjunct1]
  have c2: "indexCalls (fst (snd ?X)) = [GetSearchablePropertiesWithTypes, GetSearchableProperties]"
    by simp
  then have c3: "queryCalls (indexCalls (fst (snd ?X))) = []"
    by (simp add: queryCalls_def)
  have srw: "schemaReads ?warm = []" by (simp add: schemaReads_def)
  have icw: "indexCalls ?warm = []" by (simp add: exampleState_def)
  note rw = unknown_property_rejected [OF n cw p uw ew, unfolded srw icw]
  from rw [THEN conjunct2, THEN conjunct2, THEN conjunct2, THEN conjunct1]
  have warm: "indexCalls (fst (snd ?Y)) = []" by simp
  note cold = c1 c2 c3
  from cold warm show ?thesis by blast
qed

section \<open>The full-scan fallback\<close>

text \<open>
  Claim C7, as stated, fails: with an empty term, no where-clause and the properties
  \<^verbatim>\<open>'*'\<close>, the candidates are what the scored search of the index returns, here two of
  the three stored documents with their scores, and the count is 2.
\<close>

theorem empty_term_with_properties_counterexample:
  "fst (innerFullTextSearch exampleOrama
          (noParams\<lparr>sp_term := Some [], sp_properties := Some AllProperties\<rparr>) None exampleState)
     = Inr [(1, Num 0.5), (2, Num 0.25)]
   \<and> getAllKeys (docs exampleOrama) = [1, 2, 3]
   \<and> map_sum id count (fst (performSearchLogic exampleOrama
          (noParams\<lparr>sp_term := Some [], sp_properties := Some AllProperties\<rparr>) None 0 1 exampleState))
     = Inr 2"
  by code_simp

text \<open>
  Claim C7, amended. For a query with an empty term, no properties and no where-clause,
  the candidates are the stored document identifiers, each exactly once and with score
  0, so there are as many candidates as stored documents; and the count of the result
  is that number whenever the sort engine and the pinning engine hand back as many
  candidates as they are given and a comparator of the caller's returns. (An index that
  is read has a type for every searchable property.)
\<close>

theorem full_scan_candidates:
  assumes "cacheReady orama st"
    and "\<not> termGiven params" and "sp_properties params = None" and "noWhereClause params"
  shows "\<exists>st'. innerFullTextSearch orama params language st
                 = (Inr (map (\<lambda>k. (k, Num 0)) (getAllKeys (docs orama))), st')
           \<and> distinct (getAllKeys (docs orama))
           \<and> set (getAllKeys (docs orama)) = fset (fmdom (docs orama))
           \<and> length (getAllKeys (docs orama)) = fcard (fmdom (docs orama))
           \<and> (enginesKeepCount orama params \<longrightarrow>
                (\<exists>r. performSearchLogic orama params language t0 t1 st = (Inr r, st')
                      \<and> count r = fcard (fmdom (docs orama))))"
proof -
  let ?st' = "st\<lparr>indexCalls := indexCalls st @ schemaReads st,
                  caches := Some (validProperties orama st)\<rparr>"
  let ?cands = "map (\<lambda>k. (k, Num 0)) (getAllKeys (docs orama))"
  have i: "innerFullTextSearch orama params language st = (Inr ?cands, ?st')"
    by (rule inner_fullscan [OF assms])
  have c: "\<exists>r. performSearchLogic orama params language t0 t1 st = (Inr r, ?st')
                \<and> count r = fcard (fmdom (docs orama))"
    if k: "enginesKeepCount orama params"
  proof -
    from sortCandidates_returns [OF k, of ?cands] obtain ys
      where ys: "sortCandidates orama params ?cands = Inr ys" "length ys = length ?cands" by blast
    from perform_count [OF pinned_of_inner [OF i ys(1)], of t0 t1]
    obtain r where "performSearchLogic orama params language t0 t1 st = (Inr r, ?st')"
      and "count r = length (applyPinningRules orama ys (sp_term params))"
      by blast
    moreover have "length (applyPinningRules orama ys (sp_term params)) = fcard (fmdom (docs orama))"
      using k ys(2) by (simp add: enginesKeepCount_def length_getAllKeys)
    ultimately show ?thesis by auto
  qed
  show ?thesis
    using i c distinct_getAllKeys set_getAllKeys length_getAllKeys by blast
qed

theorem full_scan_candidates_witness:
  "fst (innerFullTextSearch exampleOrama noParams None exampleState)
     = Inr [(1, Num 0), (2, Num 0), (3, Num 0)]
   \<and> fcard (fmdom (docs exampleOrama)) = 3
   \<and> map_sum id count (fst (performSearchLogic exampleOrama noParams None 0 1 exampleState)) = Inr 3"
proof -
  have c: "cacheReady exampleOrama exampleState"
    by (simp add: cacheReady_def exampleState_def schemaTyped_def exampleOrama_def)
  have t: "\<not> termGiven noParams" by (simp add: termGiven_def noParams_def)
  have p: "sp_properties noParams = None" by (simp add: noParams_def)
  have w: "noWhereClause noParams" by (simp add: noWhereClause_def noParams_def)
  have k: "enginesKeepCount exampleOrama noParams"
    by (simp add: enginesKeepCount_def exampleOrama_def noParams_def)
  have g: "getAllKeys (docs exampleOrama) = [1, 2, 3]" by code_simp
  from full_scan_candidates [OF c t p w, of None 0 1] k g
  show ?thesis by auto
qed

section \<open>The count of a result\<close>

text \<open>
  Claim C8. The count of a result is the number of candidates as they are after sorting
  and pinning, before pagination, and it is the same for every limit and offset: with 25
  candidates, limit 10 and offset 20, the count is 25 (and the page has 5 hits).
\<close>

theorem count_before_pagination:
  assumes "performSearchLogic orama params language t0 t1 st = (Inr r, st')"
  shows "\<exists>cands. pinnedCandidates orama params language st = (Inr cands, st')
           \<and> count r = length cands
           \<and> (\<forall>newLimit newOffset. \<exists>r2. performSearchLogic orama (params\<lparr>sp_limit := newLimit, sp_offset := newOffset\<rparr>)
                             language t0 t1 st = (Inr r2, st')
                           \<and> count r2 = length cands)"
proof -
  from perform_pinned [OF assms] obtain r0
    where p0: "pinnedCandidates orama params language st = (r0, st')"
      and s0: "succeeded (Inr r :: error + Results) = succeeded r0" by blast
  from s0 obtain cands where "r0 = Inr cands"
    by (cases r0) (simp_all add: succeeded_def)
  with p0 have p: "pinnedCandidates orama params language st = (Inr cands, st')" by simp
  from perform_count [OF p, of t0 t1] assms have c: "count r = length cands" by auto
  have "\<exists>r2. performSearchLogic orama (params\<lparr>sp_limit := newLimit, sp_offset := newOffset\<rparr>) language t0 t1 st
               = (Inr r2, st') \<and> count r2 = length cands" for newLimit newOffset
    using perform_count [of orama "params\<lparr>sp_limit := newLimit, sp_offset := newOffset\<rparr>" language st cands st' t0 t1]
      p by (simp add: pinned_limit_offset)
  with p c show ?thesis by blast
qed

theorem count_before_pagination_witness:
  "map_sum id count (fst (performSearchLogic pagedOrama
       (noParams\<lparr>sp_term := Some ''cat'', sp_limit := Some 10, sp_offset := Some 20\<rparr>) None 0 1 exampleState))
     = Inr 25
   \<and> map_sum id (\<lambda>r. length (hits r)) (fst (performSearchLogic pagedOrama
       (noParams\<lparr>sp_term := Some ''cat'', sp_limit := Some 10, sp_offset := Some 20\<rparr>) None 0 1 exampleState))
     = Inr 5
   \<and> map_sum id count (fst (performSearchLogic pagedOrama
       (noParams\<lparr>sp_term := Some ''cat'', sp_limit := Some 3, sp_offset := Some 0\<rparr>) None 0 1 exampleState))
     = Inr 25"
proof -
  let ?p = "noParams\<lparr>sp_term := Some ''cat'', sp_limit := Some 10, sp_offset := Some 20\<rparr>"
  let ?X = "performSearchLogic pagedOrama ?p None 0 1 exampleState"
  have "succeeded (fst ?X)" by code_simp
  then obtain r where r: "?X = (Inr r, snd ?X)"
    by (cases "fst ?X") (simp_all add: succeeded_def prod_eq_iff)
  have l: "map_sum id length (fst (pinnedCandidates pagedOrama ?p None exampleState)) = Inr 25"
    by code_simp
  from count_before_pagination [OF r] obtain cands
    where c: "pinnedCandidates pagedOrama ?p None exampleState = (Inr cands, snd ?X)"
      and n: "count r = length cands"
      and a: "\<forall>newLimit newOffset. \<exists>r2.
                performSearchLogic pagedOrama (?p\<lparr>sp_limit := newLimit, sp_offset := newOffset\<rparr>)
                  None 0 1 exampleState = (Inr r2, snd ?X) \<and> count r2 = length cands"
    by blast
  from c l have len: "length cands = 25" by simp
  from a obtain r2 where
    "performSearchLogic pagedOrama (?p\<lparr>sp_limit := Some 3, sp_offset := Some 0\<rparr>) None 0 1 exampleState
       = (Inr r2, snd ?X)" "count r2 = length cands" by blast
  then have third: "map_sum id count (fst (performSearchLogic pagedOrama
       (noParams\<lparr>sp_term := Some ''cat'', sp_limit := Some 3, sp_offset := Some 0\<rparr>) None 0 1 exampleState))
     = Inr 25" using len by simp
  have first: "map_sum id count (fst ?X) = Inr 25"
    using r n len by (metis fst_conv map_sum.simps(2))
  have second: "map_sum id (\<lambda>r. length (hits r)) (fst ?X) = Inr 5" by code_simp
  from first second third show ?thesis by blast
qed

section \<open>The items handed to a custom sorter\<close>

text \<open>
  Claim C1. The claim says that a candidate whose document is not in the store is left
  out of the items handed to a custom sorter. The search pairs the candidates with the
  fetched documents position by position: for the candidates 1 and 7, of which 7 is not
  in the store, the sorter gets an item for 7 without a document, and 7 is still among
  the sorted candidates.
\<close>

theorem custom_sorter_item_without_document:
  "store_get exampleDocs 7 = None
   \<and> docsWithIdAndScore exampleDocs [(1, Num 0.5), (7, Num 0.25)]
       = [(1, Num 0.5, store_get exampleDocs 1), (7, Num 0.25, None)]
   \<and> fst (pinnedCandidates (exampleOrama\<lparr>index_search := (\<lambda>args. [(1, Num 0.5), (7, Num 0.25)])\<rparr>)
            (noParams\<lparr>sp_term := Some ''cat'', sp_sortBy := Some (CustomSorter (\<lambda>x y. Inr 0))\<rparr>)
            None exampleState)
       = Inr [(1, Num 0.5), (7, Num 0.25)]"
  by code_simp

section \<open>With and without hooks\<close>

text \<open>
  Claim C5. Take an instance without hooks and the same instance with hooks that do
  nothing, at least one of them registered, and run the same search on both from the same
  state, at whatever times. The first hands back its outcome directly, the second a
  promise; the two outcomes are equal in every field but \<^verbatim>\<open>elapsed\<close> (or are the
  same error), and both searches leave the same state and the parameters as they were.
\<close>

theorem sync_async_equivalence:
  assumes "noHooks orama"
    and "onlyNoopHooks (orama\<lparr>beforeSearch := b, afterSearch := a\<rparr>)"
    and "\<not> noHooks (orama\<lparr>beforeSearch := b, afterSearch := a\<rparr>)"
  shows "\<exists>r1 r2 st'.
           fullTextSearch orama params language t0 t1 st = (Direct r1, st', params)
           \<and> fullTextSearch (orama\<lparr>beforeSearch := b, afterSearch := a\<rparr>) params language t0' t1' st
               = (Promise r2, st', params)
           \<and> exceptElapsed r1 = exceptElapsed r2"
proof -
  let ?hooked = "orama\<lparr>beforeSearch := b, afterSearch := a\<rparr>"
  from assms(1) have sync: "fullTextSearch orama params language t0 t1 st =
      (Direct (fst (performSearchLogic orama params language t0 t1 st)),
       snd (performSearchLogic orama params language t0 t1 st), params)"
    by (auto simp: fullTextSearch_def noHooks_def Let_def split: option.splits prod.splits)
  from assms(3) have async: "fullTextSearch ?hooked params language t0' t1' st =
      (case executeSearchAsync ?hooked params language t0' t1' st of
         (r, st', params') \<Rightarrow> (Promise r, st', params'))"
    by (auto simp: fullTextSearch_def noHooks_def Let_def split: option.splits)
  have "fullTextSearch ?hooked params language t0' t1' st =
      (Promise (fst (performSearchLogic orama params language t0' t1' st)),
       snd (performSearchLogic orama params language t0' t1' st), params)"
    unfolding async executeSearchAsync_noop [OF assms(2)] perform_hooks
    by (simp add: split_def)
  with sync perform_time [of orama params language t0 t1 st t0' t1'] show ?thesis by simp
qed

theorem sync_async_equivalence_witness:
  "(case fst (fullTextSearch exampleOrama (noParams\<lparr>sp_term := Some ''cat''\<rparr>) None 0 5 exampleState) of
      Direct r \<Rightarrow> True | Promise r \<Rightarrow> False)
   \<and> (case fst (fullTextSearch (exampleOrama\<lparr>beforeSearch := Some [noopHook], afterSearch := Some [noopHook]\<rparr>)
                  (noParams\<lparr>sp_term := Some ''cat''\<rparr>) None 1 10 exampleState) of
      Direct r \<Rightarrow> False | Promise r \<Rightarrow> True)
   \<and> exceptElapsed (settled (fst (fullTextSearch exampleOrama
                  (noParams\<lparr>sp_term := Some ''cat''\<rparr>) None 0 5 exampleState)))
     = exceptElapsed (settled (fst (fullTextSearch
                  (exampleOrama\<lparr>beforeSearch := Some [noopHook], afterSearch := Some [noopHook]\<rparr>)
                  (noParams\<lparr>sp_term := Some ''cat''\<rparr>) None 1 10 exampleState)))
   \<and> map_sum id count (settled (fst (fullTextSearch exampleOrama
                  (noParams\<lparr>sp_term := Some ''cat''\<rparr>) None 0 5 exampleState))) = Inr 2"
proof -
  let ?hooked = "exampleOrama\<lparr>beforeSearch := Some [noopHook], afterSearch := Some [noopHook]\<rparr>"
  let ?p = "noParams\<lparr>sp_term := Some ''cat''\<rparr>"
  have a: "noHooks exampleOrama" by (simp add: noHooks_def exampleOrama_def)
  have b: "onlyNoopHooks ?hooked" by (simp add: onlyNoopHooks_def)
  have c: "\<not> noHooks ?hooked" by (simp add: noHooks_def)
  have d: "map_sum id count (settled (fst (fullTextSearch exampleOrama ?p None 0 5 exampleState))) = Inr 2"
    by code_simp
  from sync_async_equivalence [OF a b c, of ?p None 0 5 exampleState 1 10] d
  show ?thesis by (auto simp: settled_def)
qed

end
